theory Spec2Isabelle
  imports Main "HOL-Library.Word"
begin

unbundle bit_operations_syntax

section \<open>Cellular-Control: the pump controller's control loop\<close>

text \<open>
  A shallow embedding of \<^verbatim>\<open>src/Cellular-Control.cpp\<close>. The module-level variables of
  the sketch, the two function-local statics of the rate gates, the output pins, the
  FRAM contents and the millisecond counter form one record \<open>device\<close>; what a tick
  reads from the outside world (clock, sensors, connectivity) is a record \<open>env\<close>;
  everything the code sends out (publishes, resets, sleeps) is appended to a trace.
\<close>

subsection \<open>Data\<close>

datatype State =
    INITIALIZATION_STATE | ERROR_STATE | IDLE_STATE | PUMPING_STATE
  | LOW_BATTERY_STATE | REPORTING_STATE | RESP_WAIT_STATE

fun stateNames :: "State \<Rightarrow> string" where
  "stateNames INITIALIZATION_STATE = ''Initialize''"
| "stateNames ERROR_STATE = ''Error''"
| "stateNames IDLE_STATE = ''Idle''"
| "stateNames PUMPING_STATE = ''Pumping''"
| "stateNames LOW_BATTERY_STATE = ''Low Battery''"
| "stateNames REPORTING_STATE = ''Reporting''"
| "stateNames RESP_WAIT_STATE = ''Response Wait''"

text \<open>
  Modelled from the spec: the FRAM driver (\<^verbatim>\<open>MB85RC256V-FRAM-RK.h\<close>, object
  \<^verbatim>\<open>fram\<close>) is not among the sources. The spec gives the persisted record a fixed
  byte layout, so the store is a memory of bytes. \<^verbatim>\<open>fram.put(a, v)\<close> and
  \<^verbatim>\<open>fram.get(a, x)\<close> carry no width: they move the bytes of the C++ value, as many
  as its type has, starting at \<open>a\<close>, in the byte order of the target (least
  significant byte first). A \<^verbatim>\<open>byte\<close> is one byte; an \<^verbatim>\<open>int\<close>, a \<^verbatim>\<open>time_t\<close> and an
  \<^verbatim>\<open>unsigned long\<close> are four. \<^verbatim>\<open>fram.erase()\<close> zeroes every byte.
\<close>

type_synonym FRAM = "nat \<Rightarrow> 8 word"

text \<open>The address table \<^verbatim>\<open>namespace FRAM\<close> of the sketch.\<close>

definition versionAddr :: nat where "versionAddr = 0x00"
definition controlRegisterAddr :: nat where "controlRegisterAddr = 0x01"
definition resetCountAddr :: nat where "resetCountAddr = 0x02"
definition dailyPumpingMinsAddr :: nat where "dailyPumpingMinsAddr = 0x03"
definition pumpingStartAddr :: nat where "pumpingStartAddr = 0x05"
definition lastHookResponseAddr :: nat where "lastHookResponseAddr = 0x09"

definition fram_erase :: FRAM where
  "fram_erase = (\<lambda>a. 0)"

definition fram_put_byte :: "nat \<Rightarrow> 8 word \<Rightarrow> FRAM \<Rightarrow> FRAM" where
  "fram_put_byte a b fr = fr(a := b)"

definition fram_get_byte :: "FRAM \<Rightarrow> nat \<Rightarrow> 8 word" where
  "fram_get_byte fr a = fr a"

text \<open>Four bytes, least significant first: \<^verbatim>\<open>time_t\<close> and \<^verbatim>\<open>unsigned long\<close>.\<close>

definition fram_put_long :: "nat \<Rightarrow> 32 word \<Rightarrow> FRAM \<Rightarrow> FRAM" where
  "fram_put_long a w fr =
     fr(a := ucast w, a + 1 := ucast (drop_bit 8 w), a + 2 := ucast (drop_bit 16 w),
        a + 3 := ucast (drop_bit 24 w))"

definition fram_get_long :: "FRAM \<Rightarrow> nat \<Rightarrow> 32 word" where
  "fram_get_long fr a =
     ucast (fr a) OR push_bit 8 (ucast (fr (a + 1))) OR push_bit 16 (ucast (fr (a + 2)))
       OR push_bit 24 (ucast (fr (a + 3)))"

text \<open>
  A C \<^verbatim>\<open>int\<close> is 32 bits in two's complement. The \<^verbatim>\<open>int\<close> variables of the sketch
  are \<open>int\<close> here; \<open>int32\<close> is what a put followed by a get returns, and the value
  the target's addition leaves in a 32-bit \<^verbatim>\<open>int\<close> when a sum leaves its range (C
  itself leaves that case undefined).
\<close>

definition int32 :: "int \<Rightarrow> int" where
  "int32 v = sint (word_of_int v :: 32 word)"

definition fram_put_int :: "nat \<Rightarrow> int \<Rightarrow> FRAM \<Rightarrow> FRAM" where
  "fram_put_int a v fr = fram_put_long a (word_of_int v) fr"

definition fram_get_int :: "FRAM \<Rightarrow> nat \<Rightarrow> int" where
  "fram_get_int fr a = sint (fram_get_long fr a)"

text \<open>What the program sends to the outside, in the order it does so.\<close>

datatype effect =
    Publish string string
  | SystemReset
  | DeepSleep int
  | WatchdogPet
  | CloudConnect
  | CloudDisconnect
  | CellularOn
  | CellularConnect
  | CellularDisconnect
  | CellularOff
  | CellularCommand string
  | SyncTime

text \<open>
  The globals of the sketch keep their names. \<open>lastPublish\<close> and \<open>lastSample\<close> are the
  statics of \<^verbatim>\<open>meterParticlePublish\<close> and \<^verbatim>\<open>meterSampleRate\<close>. \<open>millis\<close> is the
  32-bit millisecond counter read by \<^verbatim>\<open>millis()\<close>; unsigned long arithmetic on it
  wraps. The C \<^verbatim>\<open>int\<close> variables (counts, amperes, percent) are \<open>int\<close>; the two sums
  that can leave the range of a 32-bit \<^verbatim>\<open>int\<close> (the daily minutes, the reset count) are
  wrapped by \<open>int32\<close>. \<^verbatim>\<open>time_t\<close> is the 32-bit epoch time of the spec's register
  layout.
\<close>

record device =
  state :: State
  oldState :: State
  webhookTimeStamp :: "32 word"
  resetTimeStamp :: "32 word"
  watchdogFlag :: bool
  temperatureF :: int
  resetCount :: int
  controlRegister :: "8 word"
  verboseMode :: bool
  SignalString :: string
  alertValue :: "8 word"
  dataInFlight :: bool
  currentHourlyPeriod :: "8 word"
  stateOfCharge :: int
  pumpAmps :: int
  pumpCurrentRaw :: int
  pumpingStart :: "32 word"
  dailyPumpingMins :: int
  pumpingEnabled :: bool
  lastPublish :: "32 word"
  lastSample :: "32 word"
  fram :: FRAM
  millis :: "32 word"
  pumpControlPin :: bool
  blueLED :: bool
  tmp36Shutdwn :: bool
  hardResetPin :: bool
  pumpBackupTimer :: bool
  trace :: "effect list"

text \<open>
  One snapshot of the outside world. \<open>time_hour\<close>, \<open>time_minute\<close> and \<open>time_now\<close> are
  \<^verbatim>\<open>Time.hour()\<close>, \<^verbatim>\<open>Time.minute()\<close> and \<^verbatim>\<open>Time.now()\<close>; \<open>particle_connected\<close> and
  \<open>cellular_ready\<close> are \<^verbatim>\<open>Particle.connected()\<close> and \<^verbatim>\<open>Cellular.ready()\<close>; \<open>getSoC\<close> is
  \<^verbatim>\<open>int(batteryMonitor.getSoC())\<close>; \<open>controlPowerPin\<close> and \<open>lowLevelPin\<close> are the two
  sense lines; \<open>pumpCurrentPin\<close> is \<^verbatim>\<open>analogRead(pumpCurrentPin)\<close>; \<open>systemStatus\<close> is
  \<^verbatim>\<open>power.getSystemStatus()\<close>. The temperature and signal-quality computations are
  floating point; their results are taken as read (\<open>tmp36_F\<close>, \<open>rssi_text\<close>).
  \<open>stack_data\<close> is what the 128 bytes of the uninitialised buffer of \<^verbatim>\<open>resolveAlert\<close>
  hold on entry;
  \<open>syncTime_ms\<close> is how long the cloud takes to answer \<^verbatim>\<open>Particle.syncTime()\<close>,
  \<open>disconnect_ms\<close> how long it takes to drop the session after \<^verbatim>\<open>Particle.disconnect()\<close>,
  \<open>cellular_ms\<close> and \<open>cloud_ms\<close> how long the modem and the cloud session take to come
  up. \<open>pin_reset\<close> is \<^verbatim>\<open>System.resetReason() == RESET_REASON_PIN_RESET\<close> and
  \<open>subscribe_ok\<close> the result of subscribing to the pump channel, both read by
  \<^verbatim>\<open>setup\<close>.
\<close>

record env =
  time_hour :: int
  time_minute :: int
  time_now :: "32 word"
  particle_connected :: bool
  cellular_ready :: bool
  getSoC :: int
  controlPowerPin :: bool
  lowLevelPin :: bool
  pumpCurrentPin :: int
  systemStatus :: "8 word"
  tmp36_F :: int
  rssi_text :: string
  stack_data :: string
  syncTime_ms :: "32 word"
  disconnect_ms :: "32 word"
  cellular_ms :: "32 word"
  cloud_ms :: "32 word"
  pin_reset :: bool
  subscribe_ok :: bool

subsection \<open>Tunable constants\<close>

text \<open>Globals of the sketch that are initialised once and never assigned.\<close>

definition webhookWait :: "32 word" where "webhookWait = 45000"
definition resetWait :: "32 word" where "resetWait = 30000"
definition sampleFrequency :: "32 word" where "sampleFrequency = 2000"
definition lowBattLimit :: int where "lowBattLimit = 30"

subsection \<open>Platform functions\<close>

text \<open>C integer division truncates towards zero.\<close>

definition c_div :: "int \<Rightarrow> int \<Rightarrow> int" where
  "c_div a b = (if (a < 0) = (b < 0) then \<bar>a\<bar> div \<bar>b\<bar> else - (\<bar>a\<bar> div \<bar>b\<bar>))"

text \<open>
  Modelled from the spec: \<^verbatim>\<open>map\<close> is the Wiring range mapping of the device
  firmware, not among the sources; the spec has it "linearly map the sensor's full
  input range to a 0--32 ampere range", in integer arithmetic.
\<close>

definition map_range :: "int \<Rightarrow> int \<Rightarrow> int \<Rightarrow> int \<Rightarrow> int \<Rightarrow> int" where
  "map_range v fromStart fromEnd toStart toEnd =
     (if fromEnd = fromStart then v
      else c_div ((v - fromStart) * (toEnd - toStart)) (fromEnd - fromStart) + toStart)"

text \<open>
  \<^verbatim>\<open>strtol(s, &end, 10)\<close> of the C library, which \<^verbatim>\<open>atoi\<close> wraps: leading white space
  is skipped, one optional sign is read, then the longest run of decimal digits; with
  no digit the result is 0; a value outside the 32-bit \<^verbatim>\<open>long\<close> is clamped.
\<close>

definition isspace :: "char \<Rightarrow> bool" where
  "isspace c = (of_char c \<in> {32::nat, 9, 10, 11, 12, 13})"

definition isdigit :: "char \<Rightarrow> bool" where
  "isdigit c = (48 \<le> (of_char c :: nat) \<and> (of_char c :: nat) \<le> 57)"

fun digits_value :: "int \<Rightarrow> string \<Rightarrow> int" where
  "digits_value acc [] = acc"
| "digits_value acc (c # cs) =
     (if isdigit c then digits_value (acc * 10 + (int (of_char c) - 48)) cs else acc)"

definition strtol :: "string \<Rightarrow> int" where
  "strtol s =
     (let r = dropWhile isspace s;
          v = (case r of
                 [] \<Rightarrow> 0
               | c # cs \<Rightarrow>
                   if c = CHR ''-'' then - digits_value 0 cs
                   else if c = CHR ''+'' then digits_value 0 cs
                   else digits_value 0 r)
      in max (- 2147483648) (min 2147483647 v))"

definition atoi :: "string \<Rightarrow> int" where
  "atoi s = strtol s"

subsection \<open>Rate gates and blocking waits\<close>

definition publish :: "string \<Rightarrow> string \<Rightarrow> device \<Rightarrow> device" where
  "publish topic data s = s\<lparr>trace := trace s @ [Publish topic data]\<rparr>"

definition delay :: "32 word \<Rightarrow> device \<Rightarrow> device" where
  "delay ms s = s\<lparr>millis := millis s + ms\<rparr>"

definition meterParticlePublish :: "device \<Rightarrow> bool \<times> device" where
  "meterParticlePublish s =
     (if millis s - lastPublish s \<ge> 1000 then (True, s\<lparr>lastPublish := millis s\<rparr>)
      else (False, s))"

definition meterSampleRate :: "device \<Rightarrow> bool \<times> device" where
  "meterSampleRate s =
     (if millis s - lastSample s \<ge> sampleFrequency then (True, s\<lparr>lastSample := millis s\<rparr>)
      else (False, s))"

text \<open>
  \<^verbatim>\<open>waitUntil(meterParticlePublish)\<close> blocks until the publish gate fires. Time is
  the only thing that changes while it blocks, so it returns at the first instant at
  which the gate opens: at once if a second has passed since the last publish, else
  exactly one second after it.
\<close>

definition waitUntil_meterParticlePublish :: "device \<Rightarrow> device" where
  "waitUntil_meterParticlePublish s =
     (let t = (if millis s - lastPublish s \<ge> 1000 then millis s else lastPublish s + 1000)
      in s\<lparr>millis := t, lastPublish := t\<rparr>)"

text \<open>
  \<^verbatim>\<open>waitFor(cond, timeout)\<close> blocks until the condition holds or the timeout has
  passed, whichever is first; \<open>ready_ms\<close> is the time the condition takes.
\<close>

definition waitFor :: "32 word \<Rightarrow> 32 word \<Rightarrow> device \<Rightarrow> device" where
  "waitFor ready_ms timeout s = delay (if ready_ms \<le> timeout then ready_ms else timeout) s"

subsection \<open>Sensors, watchdog, pump timer\<close>

definition getSignalStrength :: "env \<Rightarrow> device \<Rightarrow> device" where
  "getSignalStrength e s = s\<lparr>SignalString := rssi_text e\<rparr>"

definition getTemperature :: "env \<Rightarrow> device \<Rightarrow> device" where
  "getTemperature e s = s\<lparr>temperatureF := tmp36_F e\<rparr>"

definition getLostPower :: "env \<Rightarrow> bool" where
  "getLostPower e = (systemStatus e AND 0x04 = 0)"

definition watchdogISR :: "device \<Rightarrow> device" where
  "watchdogISR s = s\<lparr>watchdogFlag := True\<rparr>"

definition petWatchdog :: "device \<Rightarrow> device" where
  "petWatchdog s = s\<lparr>trace := trace s @ [WatchdogPet], watchdogFlag := False\<rparr>"

definition pumpTimerCallback :: "device \<Rightarrow> device" where
  "pumpTimerCallback s = s\<lparr>pumpingEnabled := False\<rparr>"

subsection \<open>Connection set-up and teardown\<close>

definition connectToParticle :: "env \<Rightarrow> device \<Rightarrow> bool \<times> device" where
  "connectToParticle e s =
     (let s1 = (if \<not> cellular_ready e
                then waitFor (cellular_ms e) 90000
                       (s\<lparr>trace := trace s @ [CellularOn, CellularConnect]\<rparr>)
                else s)
      in if \<not> cellular_ready e \<and> \<not> cellular_ms e \<le> 90000 then (False, s1)
         else
           (let s2 = s1\<lparr>trace := trace s1 @ [CloudConnect]\<rparr>;
                s3 = waitFor (cloud_ms e) 30000 s2
            in if \<not> cloud_ms e \<le> 30000 then (False, s3) else (True, s3)))"

definition disconnectFromParticle :: "env \<Rightarrow> device \<Rightarrow> device" where
  "disconnectFromParticle e s =
     (let s1 = s\<lparr>trace := trace s @ [CloudDisconnect]\<rparr>;
          s2 = waitFor (disconnect_ms e) 10000 s1;
          s3 = s2\<lparr>trace := trace s2 @ [CellularDisconnect]\<rparr>;
          s4 = delay 3000 s3
      in s4\<lparr>trace := trace s4 @ [CellularOff]\<rparr>)"

text \<open>
  The polling loop of \<^verbatim>\<open>fullModemReset\<close>: \<open>elapsed\<close> is \<^verbatim>\<open>millis() - startTime\<close>, and
  the cloud session is still up while \<open>elapsed < still\<close>.
\<close>

function disconnect_poll :: "nat \<Rightarrow> nat \<Rightarrow> nat" where
  "disconnect_poll still elapsed =
     (if elapsed < still \<and> elapsed < 15000 then disconnect_poll still (elapsed + 100)
      else elapsed)"
  by pat_completeness auto
termination
  by (relation "measure (\<lambda>(still, elapsed). 15000 - elapsed)") auto

declare disconnect_poll.simps [simp del]

definition modem_reset_command :: string where
  "modem_reset_command = ''AT+CFUN=16'' @ [CHR 0x0D, CHR 0x0A]"

definition fullModemReset :: "env \<Rightarrow> device \<Rightarrow> device" where
  "fullModemReset e s =
     (let s1 = s\<lparr>trace := trace s @ [CloudDisconnect]\<rparr>;
          still = (if particle_connected e then unat (disconnect_ms e) else 0);
          s2 = delay (of_nat (disconnect_poll still 0)) s1;
          s3 = s2\<lparr>trace := trace s2 @ [CellularCommand modem_reset_command]\<rparr>;
          s4 = delay 1000 s3
      in s4\<lparr>trace := trace s4 @ [DeepSleep 10]\<rparr>)"

subsection \<open>Alert summary, telemetry event, acknowledgment\<close>

fun print_nat :: "nat \<Rightarrow> string" where
  "print_nat n =
     (if n < 10 then [char_of (48 + n)] else print_nat (n div 10) @ [char_of (48 + n mod 10)])"

declare print_nat.simps [simp del]

definition print_int :: "int \<Rightarrow> string" where
  "print_int i = (if i < 0 then CHR ''-'' # print_nat (nat (- i)) else print_nat (nat i))"

text \<open>
  \<^verbatim>\<open>resolveAlert\<close> builds its text with \<^verbatim>\<open>strcat\<close> in \<^verbatim>\<open>char data[128]\<close>, which it
  never initialises. Reading or writing past the 128 bytes is undefined in C: the
  model stops there with a fault. \<open>c_str\<close> is the text a buffer holds, up to its first
  NUL; a buffer with no NUL among its 128 bytes holds none.
\<close>

datatype fault = BufferOverrun

definition c_str :: "string \<Rightarrow> string option" where
  "c_str buf =
     (if CHR 0x00 \<in> set (take 128 buf) then Some (takeWhile (\<lambda>c. c \<noteq> CHR 0x00) buf)
      else None)"

text \<open>
  \<^verbatim>\<open>strcat(data, src)\<close>: the text, \<open>src\<close> and the closing NUL must fit in 128 bytes.
\<close>

definition strcat :: "string option \<Rightarrow> string \<Rightarrow> fault + string option" where
  "strcat dst src =
     (case dst of
        None \<Rightarrow> Inl BufferOverrun
      | Some d \<Rightarrow>
          if length d + length src + 1 \<le> 128 then Inr (Some (d @ src)) else Inl BufferOverrun)"

text \<open>\<^verbatim>\<open>if (alertValue & mask) strcat(data, src);\<close> after what came before.\<close>

definition strcat_if :: "bool \<Rightarrow> string \<Rightarrow> fault + string option \<Rightarrow> fault + string option"
  where
  "strcat_if b src r =
     (case r of Inl f \<Rightarrow> Inl f | Inr dst \<Rightarrow> if b then strcat dst src else Inr dst)"

definition alert_summary :: "string \<Rightarrow> 8 word \<Rightarrow> fault + string option" where
  "alert_summary buf a =
     (let d0 = Inr (c_str buf);
          d1 = strcat_if (a AND 0x01 \<noteq> 0) ''Control Power - '' d0;
          d2 = strcat_if (a AND 0x02 \<noteq> 0) ''Low Level - '' d1;
          d3 = strcat_if (a AND 0x04 \<noteq> 0) ''Pump On - '' d2
      in strcat_if (a AND 0x80 \<noteq> 0) ''Particle Power'' d3)"

text \<open>
  The publish reads the buffer as a C string, so a buffer without a NUL is a fault
  there too.
\<close>

definition resolveAlert :: "env \<Rightarrow> device \<Rightarrow> fault + device" where
  "resolveAlert e s =
     (case alert_summary (stack_data e) (alertValue s) of
        Inl f \<Rightarrow> Inl f
      | Inr data \<Rightarrow>
          (let s1 = waitUntil_meterParticlePublish s
           in if particle_connected e \<and> verboseMode s1 then
                (case data of
                   None \<Rightarrow> Inl BufferOverrun
                 | Some d \<Rightarrow> Inr (publish ''Alerts'' d s1))
              else Inr s1))"

definition event_data :: "device \<Rightarrow> string" where
  "event_data s =
     ''{\"alertValue\":'' @ print_int (uint (alertValue s)) @
     '', \"pumpAmps\":'' @ print_int (pumpAmps s) @
     '', \"pumpMins\":'' @ print_int (dailyPumpingMins s) @
     '', \"battery\":'' @ print_int (stateOfCharge s) @
     '', \"temp\":'' @ print_int (temperatureF s) @
     '', \"resets\":'' @ print_int (resetCount s) @ ''}''"

definition sendEvent :: "env \<Rightarrow> device \<Rightarrow> device" where
  "sendEvent e s =
     (let d = take 255 (event_data s);
          s1 = waitUntil_meterParticlePublish s;
          s2 = publish ''Monitoring_Event'' d s1;
          s3 = s2\<lparr>webhookTimeStamp := millis s2\<rparr>;
          s4 = s3\<lparr>currentHourlyPeriod := word_of_int (time_hour e)\<rparr>
      in s4\<lparr>dataInFlight := True\<rparr>)"

text \<open>The payload pointer may be null: \<open>None\<close>.\<close>

definition UbidotsHandler :: "env \<Rightarrow> string option \<Rightarrow> device \<Rightarrow> device" where
  "UbidotsHandler e data s =
     (case data of
        None \<Rightarrow> publish ''Ubidots Hook'' ''No Data'' (waitUntil_meterParticlePublish s)
      | Some d \<Rightarrow>
          (let responseCode = atoi d
           in if responseCode = 200 \<or> responseCode = 201 then
                (let s1 = waitUntil_meterParticlePublish s;
                     s2 = publish ''State'' ''Response Received'' s1;
                     s3 = s2\<lparr>fram := fram_put_long lastHookResponseAddr (time_now e) (fram s2)\<rparr>
                 in s3\<lparr>dataInFlight := False\<rparr>)
              else publish ''Ubidots Hook'' d (waitUntil_meterParticlePublish s)))"

subsection \<open>Sampling: \<^verbatim>\<open>takeMeasurements\<close>\<close>

text \<open>The local flag of the sampler, as the source computes it.\<close>

definition pumpAmpsSignificantChange :: "int \<Rightarrow> int \<Rightarrow> bool" where
  "pumpAmpsSignificantChange newAmps lastPumpAmps =
     (newAmps \<ge> lastPumpAmps + 2 \<or> newAmps \<le> lastPumpAmps - 2)"

text \<open>
  \<^verbatim>\<open>int(difftime(stop, start) / 60)\<close>: the difference of two 32-bit signed times is
  exact in a double, and so is the truncation of its sixtieth.
\<close>

definition session_minutes :: "32 word \<Rightarrow> 32 word \<Rightarrow> int" where
  "session_minutes stop start = c_div (sint stop - sint start) 60"

text \<open>
  The pump block of the sampler (the \<^verbatim>\<open>if (pumpingEnabled) ... else if ... else\<close>),
  returning the local flag with the state. \<^verbatim>\<open>controlRegister | 0b00000010\<close> and
  \<^verbatim>\<open>controlRegister ^ 0b00000010\<close> are \<^verbatim>\<open>int\<close>s by promotion, so their puts are four
  bytes wide.
\<close>

definition pump_session :: "env \<Rightarrow> int \<Rightarrow> device \<Rightarrow> bool \<times> device" where
  "pump_session e lastPumpAmps s =
     (if pumpingEnabled s then
        (let s1 = s\<lparr>alertValue := alertValue s OR 0x04\<rparr>;
             s2 = s1\<lparr>pumpCurrentRaw := pumpCurrentPin e\<rparr>;
             s3 = s2\<lparr>pumpAmps := map_range (pumpCurrentRaw s2) 0 4095 0 32\<rparr>;
             change = pumpAmpsSignificantChange (pumpAmps s3) lastPumpAmps
         in if controlRegister s3 AND 0x02 = 0 then
              (let s4 = s3\<lparr>pumpingStart := time_now e\<rparr>;
                   s5 = s4\<lparr>fram := fram_put_long pumpingStartAddr (pumpingStart s4) (fram s4)\<rparr>
               in (change,
                   s5\<lparr>fram := fram_put_int controlRegisterAddr
                                  (uint (controlRegister s5 OR 0x02)) (fram s5)\<rparr>))
            else (change, s3))
      else if controlRegister s AND 0x02 \<noteq> 0 then
        (let s1 = s\<lparr>fram := fram_put_int controlRegisterAddr
                               (uint (controlRegister s XOR 0x02)) (fram s)\<rparr>;
             pumpingStop = time_now e;
             s2 = s1\<lparr>dailyPumpingMins :=
                        int32 (dailyPumpingMins s1
                               + session_minutes pumpingStop (pumpingStart s1))\<rparr>
         in (False,
             s2\<lparr>fram := fram_put_int dailyPumpingMinsAddr (dailyPumpingMins s2) (fram s2)\<rparr>))
      else (False, s\<lparr>pumpAmps := 0\<rparr>))"

definition takeMeasurements :: "env \<Rightarrow> device \<Rightarrow> device" where
  "takeMeasurements e s =
     (let s1 = s\<lparr>controlRegister := fram_get_byte (fram s) controlRegisterAddr\<rparr>;
          lastAlertValue = alertValue s1;
          lastPumpAmps = pumpAmps s1;
          s2 = s1\<lparr>alertValue := 0\<rparr>;
          s3 = (if cellular_ready e then getSignalStrength e s2 else s2);
          s4 = getTemperature e s3;
          s5 = s4\<lparr>stateOfCharge := getSoC e\<rparr>;
          s6 = (if \<not> controlPowerPin e then s5\<lparr>alertValue := alertValue s5 OR 0x01\<rparr> else s5);
          s7 = (if \<not> lowLevelPin e then s6\<lparr>alertValue := alertValue s6 OR 0x02\<rparr> else s6);
          (change, s8) = pump_session e lastPumpAmps s7;
          s9 = (if getLostPower e then s8\<lparr>alertValue := alertValue s8 OR 0x80\<rparr> else s8)
      in if alertValue s9 \<noteq> lastAlertValue \<or> change then s9\<lparr>state := REPORTING_STATE\<rparr>
         else s9)"

subsection \<open>Daily cleanup and transition notices\<close>

definition dailyCleanup :: "env \<Rightarrow> device \<Rightarrow> device" where
  "dailyCleanup e s =
     (let s1 = s\<lparr>controlRegister := fram_get_byte (fram s) controlRegisterAddr\<rparr>;
          s2 = publish ''Daily Cleanup'' ''Running'' (waitUntil_meterParticlePublish s1);
          s3 = s2\<lparr>verboseMode := False\<rparr>;
          s4 = s3\<lparr>controlRegister := 0xF7 AND controlRegister s3\<rparr>;
          s5 = s4\<lparr>dailyPumpingMins := 0\<rparr>;
          s6 = s5\<lparr>fram := fram_put_int dailyPumpingMinsAddr 0 (fram s5)\<rparr>;
          s7 = s6\<lparr>trace := trace s6 @ [SyncTime]\<rparr>;
          s8 = waitFor (syncTime_ms e) 30000 s7
      in s8\<lparr>fram := fram_put_byte controlRegisterAddr (controlRegister s8) (fram s8)\<rparr>)"

definition publishStateTransition :: "env \<Rightarrow> device \<Rightarrow> device" where
  "publishStateTransition e s =
     (let stateTransitionString =
            take 39 (''From '' @ stateNames (oldState s) @ '' to '' @ stateNames (state s));
          s1 = s\<lparr>oldState := state s\<rparr>
      in if particle_connected e \<and> state s1 \<noteq> IDLE_STATE then
           publish ''State Transition'' stateTransitionString (waitUntil_meterParticlePublish s1)
         else s1)"

text \<open>The verbose-mode notice that every case of the loop starts with.\<close>

definition transition_notice :: "env \<Rightarrow> device \<Rightarrow> device" where
  "transition_notice e s =
     (if verboseMode s \<and> state s \<noteq> oldState s then publishStateTransition e s else s)"

subsection \<open>The control loop\<close>

definition loop_IDLE :: "env \<Rightarrow> device \<Rightarrow> device" where
  "loop_IDLE e s =
     (let s1 = (if watchdogFlag s then petWatchdog s else s);
          s2 = transition_notice e s1;
          s3 = (if time_hour e \<noteq> uint (currentHourlyPeriod s2)
                then s2\<lparr>state := REPORTING_STATE\<rparr> else s2);
          s4 = (if stateOfCharge s3 \<le> lowBattLimit
                then s3\<lparr>state := LOW_BATTERY_STATE\<rparr> else s3);
          s5 = (if pumpingEnabled s4 \<or> pumpControlPin s4
                then s4\<lparr>state := PUMPING_STATE\<rparr> else s4)
      in case meterSampleRate s5 of
           (True, s6) \<Rightarrow> takeMeasurements e s6
         | (False, s6) \<Rightarrow> s6)"

definition loop_PUMPING :: "env \<Rightarrow> device \<Rightarrow> device" where
  "loop_PUMPING e s =
     (let s1 = transition_notice e s;
          s2 = (if pumpingEnabled s1 \<and> \<not> pumpControlPin s1 then
                  s1\<lparr>pumpControlPin := True, blueLED := True, pumpBackupTimer := True\<rparr>
                else if \<not> pumpingEnabled s1 \<and> pumpControlPin s1 then
                  s1\<lparr>pumpControlPin := False, blueLED := False, pumpBackupTimer := False\<rparr>
                else s1)
      in s2\<lparr>state := IDLE_STATE\<rparr>)"

definition loop_LOW_BATTERY :: "env \<Rightarrow> device \<Rightarrow> device" where
  "loop_LOW_BATTERY e s =
     (let s1 = transition_notice e s;
          s2 = (if particle_connected e then disconnectFromParticle e s1 else s1);
          s3 = s2\<lparr>blueLED := False, pumpControlPin := False, tmp36Shutdwn := False\<rparr>;
          secondsToHour = 60 * (60 - time_minute e)
      in s3\<lparr>trace := trace s3 @ [DeepSleep secondsToHour]\<rparr>)"

definition loop_REPORTING :: "env \<Rightarrow> device \<Rightarrow> fault + device" where
  "loop_REPORTING e s =
     (let s1 = transition_notice e s
      in if particle_connected e then
           (case (if alertValue s1 \<noteq> 0 then resolveAlert e s1 else Inr s1) of
              Inl f \<Rightarrow> Inl f
            | Inr s2 \<Rightarrow>
                (let s3 = sendEvent e s2;
                     s4 = (if time_hour e = 0 then dailyCleanup e s3 else s3)
                 in Inr (s4\<lparr>state := RESP_WAIT_STATE\<rparr>)))
         else Inr (s1\<lparr>state := ERROR_STATE\<rparr>))"

definition loop_RESP_WAIT :: "env \<Rightarrow> device \<Rightarrow> device" where
  "loop_RESP_WAIT e s =
     (let s1 = transition_notice e s
      in if \<not> dataInFlight s1 then s1\<lparr>state := IDLE_STATE\<rparr>
         else if millis s1 - webhookTimeStamp s1 \<ge> webhookWait then
           (let s2 = s1\<lparr>resetTimeStamp := millis s1\<rparr>;
                s3 = s2\<lparr>state := ERROR_STATE\<rparr>
            in if verboseMode s3 then
                 publish ''State'' ''Response Timeout Error'' (waitUntil_meterParticlePublish s3)
               else s3)
         else s1)"

text \<open>
  In the Error case \<^verbatim>\<open>Time.now() - lastWebHookResponse > 7200L\<close> subtracts an
  \<^verbatim>\<open>unsigned long\<close> from a 32-bit \<^verbatim>\<open>time_t\<close>: the arithmetic and the comparison are
  unsigned and wrap.
\<close>

definition loop_ERROR :: "env \<Rightarrow> device \<Rightarrow> device" where
  "loop_ERROR e s =
     (let s1 = transition_notice e s;
          lastWebHookResponse = fram_get_long (fram s1) lastHookResponseAddr
      in if millis s1 - resetTimeStamp s1 \<ge> resetWait then
           (if resetCount s1 \<le> 3 then
              (let s2 = waitUntil_meterParticlePublish s1;
                   s3 = (if particle_connected e
                         then publish ''State'' ''Error State - Reset'' s2 else s2);
                   s4 = delay 2000 s3
               in s4\<lparr>trace := trace s4 @ [SystemReset]\<rparr>)
            else if time_now e - lastWebHookResponse > 7200 then
              (let s2 = waitUntil_meterParticlePublish s1;
                   s3 = (if particle_connected e
                         then publish ''State'' ''Error State - Power Cycle'' s2 else s2);
                   s4 = delay 2000 s3;
                   s5 = s4\<lparr>fram := fram_put_int resetCountAddr 0 (fram s4)\<rparr>
               in s5\<lparr>hardResetPin := True\<rparr>)
            else
              (let s2 = waitUntil_meterParticlePublish s1;
                   s3 = (if particle_connected e
                         then publish ''State'' ''Error State - Full Modem Reset'' s2 else s2);
                   s4 = delay 2000 s3;
                   s5 = s4\<lparr>fram := fram_put_int resetCountAddr 0 (fram s4)\<rparr>
               in fullModemReset e s5))
         else s1)"

text \<open>
  One pass of \<^verbatim>\<open>loop()\<close>. The \<^verbatim>\<open>switch\<close> has no case for the initial state: such a
  tick does nothing. Only the Reporting case can end in a fault.
\<close>

definition loop :: "env \<Rightarrow> device \<Rightarrow> fault + device" where
  "loop e s =
     (case state s of
        IDLE_STATE \<Rightarrow> Inr (loop_IDLE e s)
      | PUMPING_STATE \<Rightarrow> Inr (loop_PUMPING e s)
      | LOW_BATTERY_STATE \<Rightarrow> Inr (loop_LOW_BATTERY e s)
      | REPORTING_STATE \<Rightarrow> loop_REPORTING e s
      | RESP_WAIT_STATE \<Rightarrow> Inr (loop_RESP_WAIT e s)
      | ERROR_STATE \<Rightarrow> Inr (loop_ERROR e s)
      | INITIALIZATION_STATE \<Rightarrow> Inr s)"

subsection \<open>Remote functions and the pump channel\<close>

definition pumpControl :: "string \<Rightarrow> device \<Rightarrow> int \<times> device" where
  "pumpControl command s =
     (if command = ''1'' then (1, s\<lparr>pumpingEnabled := True\<rparr>)
      else if command = ''0'' then (1, s\<lparr>pumpingEnabled := False\<rparr>)
      else (0, s))"

definition resetFRAM :: "string \<Rightarrow> device \<Rightarrow> int \<times> device" where
  "resetFRAM command s =
     (if command = ''1'' then (1, s\<lparr>fram := fram_erase\<rparr>) else (0, s))"

definition resetCounts :: "string \<Rightarrow> device \<Rightarrow> int \<times> device" where
  "resetCounts command s =
     (if command = ''1'' then
        (let s1 = s\<lparr>fram := fram_put_int resetCountAddr 0 (fram s)\<rparr>;
             s2 = s1\<lparr>resetCount := 0\<rparr>;
             s3 = s2\<lparr>dataInFlight := False\<rparr>;
             s4 = s3\<lparr>dailyPumpingMins := 0\<rparr>;
             s5 = s4\<lparr>fram := fram_put_int dailyPumpingMinsAddr 0 (fram s4)\<rparr>
         in (1, s5\<lparr>alertValue := 0\<rparr>))
      else (0, s))"

definition hardResetNow :: "string \<Rightarrow> device \<Rightarrow> int \<times> device" where
  "hardResetNow command s =
     (if command = ''1'' then (1, s\<lparr>hardResetPin := True\<rparr>) else (0, s))"

definition sendNow :: "string \<Rightarrow> device \<Rightarrow> int \<times> device" where
  "sendNow command s =
     (if command = ''1'' then (1, s\<lparr>state := REPORTING_STATE\<rparr>) else (0, s))"

definition setVerboseMode :: "string \<Rightarrow> device \<Rightarrow> int \<times> device" where
  "setVerboseMode command s =
     (if command = ''1'' then
        (let s1 = s\<lparr>verboseMode := True\<rparr>;
             s2 = s1\<lparr>controlRegister := fram_get_byte (fram s1) controlRegisterAddr\<rparr>;
             s3 = s2\<lparr>controlRegister := 0x08 OR controlRegister s2\<rparr>;
             s4 = s3\<lparr>fram := fram_put_byte controlRegisterAddr (controlRegister s3) (fram s3)\<rparr>
         in (1, publish ''Mode'' ''Set Verbose Mode'' (waitUntil_meterParticlePublish s4)))
      else if command = ''0'' then
        (let s1 = s\<lparr>verboseMode := False\<rparr>;
             s2 = s1\<lparr>controlRegister := fram_get_byte (fram s1) controlRegisterAddr\<rparr>;
             s3 = s2\<lparr>controlRegister := 0xF7 AND controlRegister s2\<rparr>;
             s4 = s3\<lparr>fram := fram_put_byte controlRegisterAddr (controlRegister s3) (fram s3)\<rparr>
         in (1, publish ''Mode'' ''Cleared Verbose Mode'' (waitUntil_meterParticlePublish s4)))
      else (0, s))"

text \<open>
  The subscription handler of the pump channel. The source reads the payload with
  \<^verbatim>\<open>strtol\<close> and never looks at the end pointer it asks for. The payload is taken
  to be a string: the source does not test it for null.
\<close>

definition pumpControlHandler :: "string \<Rightarrow> device \<Rightarrow> device" where
  "pumpControlHandler data s =
     (let onOrOff = strtol data
      in if onOrOff = 1 then
           publish ''Status'' ''Pump On Received''
             (waitUntil_meterParticlePublish (s\<lparr>pumpingEnabled := True\<rparr>))
         else if onOrOff = 0 then
           publish ''Status'' ''Pump Off Received''
             (waitUntil_meterParticlePublish (s\<lparr>pumpingEnabled := False\<rparr>))
         else s)"

text \<open>What a run of the code has sent out between two states.\<close>

definition emitted :: "device \<Rightarrow> device \<Rightarrow> effect list" where
  "emitted s s' = drop (length (trace s)) (trace s')"

subsection \<open>Start-up and the runs of the device\<close>

text \<open>
  The globals as their initialisers leave them, over a persistent register with
  contents \<open>fr\<close>: the state of the device when \<^verbatim>\<open>setup\<close> is entered, after power-on,
  a reset or a wake from deep sleep.
\<close>

definition power_on :: "FRAM \<Rightarrow> device" where
  "power_on fr =
     \<lparr> state = INITIALIZATION_STATE, oldState = INITIALIZATION_STATE, webhookTimeStamp = 0,
       resetTimeStamp = 0, watchdogFlag = False, temperatureF = 0, resetCount = 0,
       controlRegister = 0, verboseMode = False, SignalString = [], alertValue = 0,
       dataInFlight = False, currentHourlyPeriod = 0, stateOfCharge = 0, pumpAmps = 0,
       pumpCurrentRaw = 0, pumpingStart = 0, dailyPumpingMins = 0, pumpingEnabled = False,
       lastPublish = 0, lastSample = 0, fram = fr, millis = 0, pumpControlPin = False,
       blueLED = False, tmp36Shutdwn = False, hardResetPin = False, pumpBackupTimer = False,
       trace = [] \<rparr>"

text \<open>
  \<^verbatim>\<open>setup()\<close> of the sketch, without the pin modes and the registration of cloud
  variables and functions.
\<close>

definition setup_device :: "env \<Rightarrow> device \<Rightarrow> device" where
  "setup_device e s =
     (let s1 = s\<lparr>tmp36Shutdwn := True\<rparr>;
          s2 = (if subscribe_ok e then publish ''PubSub'' ''Subscribe successful'' s1
                else publish ''PubSub'' ''Subscribe Not successful'' s1);
          s3 = s2\<lparr>trace := trace s2 @ [CloudConnect]\<rparr>;
          s4 = s3\<lparr>resetCount := fram_get_int (fram s3) resetCountAddr\<rparr>;
          s5 = (if pin_reset e then
                  (let s' = s4\<lparr>resetCount := int32 (resetCount s4 + 1)\<rparr>
                   in s'\<lparr>fram := fram_put_int resetCountAddr (resetCount s') (fram s')\<rparr>)
                else s4);
          s6 = s5\<lparr>controlRegister := fram_get_byte (fram s5) controlRegisterAddr\<rparr>;
          s7 = s6\<lparr>verboseMode := (0x08 AND controlRegister s6 \<noteq> 0)\<rparr>;
          s8 = s7\<lparr>dailyPumpingMins := fram_get_int (fram s7) dailyPumpingMinsAddr\<rparr>;
          s9 = (if controlRegister s8 AND 0x02 \<noteq> 0
                then s8\<lparr>pumpingStart := fram_get_long (fram s8) pumpingStartAddr\<rparr> else s8);
          s10 = s9\<lparr>stateOfCharge := getSoC e\<rparr>;
          s11 = (if stateOfCharge s10 > lowBattLimit then snd (connectToParticle e s10)
                 else s10);
          s12 = s11\<lparr>pumpBackupTimer := False\<rparr>
      in if state s12 \<noteq> ERROR_STATE then s12\<lparr>state := IDLE_STATE\<rparr> else s12)"

text \<open>
  The states the device can be in: it starts from \<^verbatim>\<open>setup\<close> over any contents of
  the persistent register (a restart is a start over the contents it left), and then
  the loop ticks, time passes, the two subscription handlers, the watchdog interrupt
  and the backup timer fire, and the six remote functions are called, in any order
  and under any surroundings. A tick that ends in a fault ends the run.
\<close>

inductive reachable :: "device \<Rightarrow> bool" where
  start: "reachable (setup_device e (power_on fr))"
| tick: "reachable s \<Longrightarrow> loop e s = Inr s' \<Longrightarrow> reachable s'"
| time_passes: "reachable s \<Longrightarrow> reachable (delay ms s)"
| acknowledgment: "reachable s \<Longrightarrow> reachable (UbidotsHandler e data s)"
| pump_channel: "reachable s \<Longrightarrow> reachable (pumpControlHandler payload s)"
| watchdog: "reachable s \<Longrightarrow> reachable (watchdogISR s)"
| backup_timer: "reachable s \<Longrightarrow> reachable (pumpTimerCallback s)"
| call_pumpControl: "reachable s \<Longrightarrow> reachable (snd (pumpControl command s))"
| call_resetFRAM: "reachable s \<Longrightarrow> reachable (snd (resetFRAM command s))"
| call_resetCounts: "reachable s \<Longrightarrow> reachable (snd (resetCounts command s))"
| call_hardResetNow: "reachable s \<Longrightarrow> reachable (snd (hardResetNow command s))"
| call_sendNow: "reachable s \<Longrightarrow> reachable (snd (sendNow command s))"
| call_setVerboseMode: "reachable s \<Longrightarrow> reachable (snd (setVerboseMode command s))"

subsection \<open>Closed forms used in the statements\<close>

text \<open>
  The alert bitmask a run of the sampler ends with, bit by bit as the sampler sets it
  (\<open>takeMeasurements_alertValue\<close> below), and the condition under which the sampler
  forces Reporting (\<open>takeMeasurements_state\<close>).
\<close>

definition new_alertValue :: "env \<Rightarrow> device \<Rightarrow> 8 word" where
  "new_alertValue e s =
     (let a1 = (if \<not> controlPowerPin e then 0x01 else 0);
          a2 = (if \<not> lowLevelPin e then a1 OR 0x02 else a1);
          a3 = (if pumpingEnabled s then a2 OR 0x04 else a2)
      in if getLostPower e then a3 OR 0x80 else a3)"

definition sampler_forces :: "env \<Rightarrow> device \<Rightarrow> bool" where
  "sampler_forces e s =
     (new_alertValue e s \<noteq> alertValue s \<or>
      (pumpingEnabled s \<and>
       pumpAmpsSignificantChange (map_range (pumpCurrentPin e) 0 4095 0 32) (pumpAmps s)))"

text \<open>Bit 1 of the persisted control register: a pumping session is recorded open.\<close>

definition session_open :: "FRAM \<Rightarrow> bool" where
  "session_open fr = (fram_get_byte fr controlRegisterAddr AND 0x02 \<noteq> 0)"


subsection \<open>Example inputs\<close>

text \<open>
  A device at rest in Idle (battery at 80 per cent, nothing in flight, the hour already
  reported, three seconds since the last sample) and surroundings in which every
  sense line is healthy. The examples below vary them field by field.
\<close>

definition idle_device :: device where
  "idle_device =
     \<lparr> state = IDLE_STATE, oldState = IDLE_STATE, webhookTimeStamp = 0, resetTimeStamp = 0,
       watchdogFlag = False, temperatureF = 70, resetCount = 0, controlRegister = 0,
       verboseMode = False, SignalString = [], alertValue = 0, dataInFlight = False,
       currentHourlyPeriod = 9, stateOfCharge = 80, pumpAmps = 0, pumpCurrentRaw = 0,
       pumpingStart = 0, dailyPumpingMins = 0, pumpingEnabled = False, lastPublish = 0,
       lastSample = 7000, fram = fram_erase, millis = 10000, pumpControlPin = False,
       blueLED = False, tmp36Shutdwn = True, hardResetPin = False, pumpBackupTimer = False,
       trace = [] \<rparr>"

definition fair_env :: env where
  "fair_env =
     \<lparr> time_hour = 9, time_minute = 15, time_now = 1550000000, particle_connected = True,
       cellular_ready = True, getSoC = 80, controlPowerPin = True, lowLevelPin = True,
       pumpCurrentPin = 0, systemStatus = 0x04, tmp36_F = 70, rssi_text = ''LTE'',
       stack_data = [CHR 0x00], syncTime_ms = 500, disconnect_ms = 200, cellular_ms = 20000,
       cloud_ms = 5000, pin_reset = False, subscribe_ok = True \<rparr>"

text \<open>A device waiting for the acknowledgment of an event sent 45 s ago.\<close>

definition waiting_device :: device where
  "waiting_device = idle_device\<lparr>state := RESP_WAIT_STATE, oldState := RESP_WAIT_STATE,
      dataInFlight := True, webhookTimeStamp := 10000, millis := 55000\<rparr>"

text \<open>
  A device in Error for 40 s, after four resets, whose last acknowledgment is 10000 s
  older than the time of \<open>fair_env\<close>.
\<close>

definition error_device :: device where
  "error_device = idle_device\<lparr>state := ERROR_STATE, oldState := ERROR_STATE, millis := 100000,
      resetTimeStamp := 60000, resetCount := 4,
      fram := fram_put_long lastHookResponseAddr 1549990000
                (fram_put_int resetCountAddr 4 fram_erase)\<rparr>"

text \<open>
  A device that has been pumping for 1000 s at the time of \<open>fair_env\<close>, the session
  recorded open and the last current reading 14 A.
\<close>

definition pumping_device :: device where
  "pumping_device = idle_device\<lparr>pumpingEnabled := True, pumpControlPin := True, alertValue := 4,
      pumpAmps := 14, pumpingStart := 1549999000,
      fram := fram_put_long pumpingStartAddr 1549999000
                (fram_put_byte controlRegisterAddr 0x02 fram_erase)\<rparr>"


text \<open>
  A device restarted over a register whose session bit is set, as after a reset in
  the middle of a session.
\<close>

definition restarted_device :: device where
  "restarted_device =
     setup_device fair_env (power_on (fram_put_byte controlRegisterAddr 0x02 fram_erase))"

text \<open>
  A device started over an erased register with the cloud session up after one
  second, then asked for the pump by the remote function, then two ticks on: the
  Idle tick, too early for a sample, hands over to Pumping, and the Pumping tick
  switches the pump on.
\<close>

definition requested_device :: device where
  "requested_device =
     snd (pumpControl ''1'' (setup_device (fair_env\<lparr>cloud_ms := 1000\<rparr>) (power_on fram_erase)))"

definition running_device :: device where
  "running_device =
     loop_PUMPING (fair_env\<lparr>cloud_ms := 1000\<rparr>)
       (loop_IDLE (fair_env\<lparr>cloud_ms := 1000\<rparr>) requested_device)"

section \<open>Properties\<close>

lemmas loop_defs = loop_def loop_IDLE_def loop_PUMPING_def loop_LOW_BATTERY_def
  loop_REPORTING_def loop_RESP_WAIT_def loop_ERROR_def

lemmas gate_defs = waitUntil_meterParticlePublish_def publish_def delay_def waitFor_def
  meterSampleRate_def meterParticlePublish_def

lemmas notice_defs = transition_notice_def publishStateTransition_def

lemmas sampler_defs = takeMeasurements_def getSignalStrength_def getTemperature_def

lemmas strtol_defs = atoi_def strtol_def isspace_def isdigit_def

lemmas addr_defs = versionAddr_def controlRegisterAddr_def resetCountAddr_def
  dailyPumpingMinsAddr_def pumpingStartAddr_def lastHookResponseAddr_def

lemmas fram_defs = fram_erase_def fram_put_byte_def fram_get_byte_def fram_put_long_def
  fram_get_long_def fram_put_int_def fram_get_int_def int32_def addr_defs

lemmas example_defs = idle_device_def fair_env_def fram_defs

lemmas eval_defs = example_defs notice_defs gate_defs
  sampler_defs petWatchdog_def pump_session_def getLostPower_def
  pumpAmpsSignificantChange_def map_range_def c_div_def session_minutes_def
  webhookWait_def resetWait_def sampleFrequency_def lowBattLimit_def Let_def

subsection \<open>The persistent register\<close>

text \<open>Four bytes put are the four bytes got.\<close>

lemma bytes_join:
  "ucast (ucast w :: 8 word) OR push_bit 8 (ucast (ucast (drop_bit 8 w) :: 8 word))
     OR push_bit 16 (ucast (ucast (drop_bit 16 w) :: 8 word))
     OR push_bit 24 (ucast (ucast (drop_bit 24 w) :: 8 word)) = (w :: 32 word)"
  (is "?l = w")
proof (rule bit_word_eqI)
  fix n :: nat
  assume "n < LENGTH(32)"
  then consider "n < 8" | "8 \<le> n" "n < 16" | "16 \<le> n" "n < 24" | "24 \<le> n" "n < 32"
    by fastforce
  then show "bit ?l n = bit w n"
    by cases (auto simp add: bit_simps)
qed

lemma fram_get_put_long: "fram_get_long (fram_put_long a w fr) a = w"
  by (simp add: fram_get_long_def fram_put_long_def bytes_join)

lemma fram_get_put_int: "fram_get_int (fram_put_int a v fr) a = int32 v"
  by (simp add: fram_get_int_def fram_put_int_def int32_def fram_get_put_long)

text \<open>A put of four bytes leaves the bytes before and after them alone.\<close>

lemma fram_put_long_other:
  "b < a \<or> a + 4 \<le> b \<Longrightarrow> fram_put_long a w fr b = fr b"
  by (auto simp add: fram_put_long_def)

lemma fram_get_long_other:
  "b + 4 \<le> a \<or> a + 4 \<le> b \<Longrightarrow> fram_get_long (fram_put_long a w fr) b = fram_get_long fr b"
  by (auto simp add: fram_get_long_def fram_put_long_other)

text \<open>A byte promoted to \<^verbatim>\<open>int\<close> and put: the byte itself, then three zero bytes.\<close>

lemma promoted_byte:
  "ucast (ucast (x :: 8 word) :: 32 word) = x"
  "ucast (drop_bit 8 (ucast (x :: 8 word) :: 32 word)) = (0 :: 8 word)"
  "ucast (drop_bit 16 (ucast (x :: 8 word) :: 32 word)) = (0 :: 8 word)"
  "ucast (drop_bit 24 (ucast (x :: 8 word) :: 32 word)) = (0 :: 8 word)"
  by (rule bit_word_eqI; auto simp add: bit_simps dest: bit_imp_le_length)+

lemma fram_put_promoted_byte:
  "fram_put_int a (uint (x :: 8 word)) fr = fr(a := x, a + 1 := 0, a + 2 := 0, a + 3 := 0)"
  by (simp add: fram_put_int_def fram_put_long_def promoted_byte)

lemma int32_idem: "int32 (int32 v) = int32 v"
  by (simp add: int32_def)

lemma int32_in_range: "- 2147483648 \<le> v \<Longrightarrow> v < 2147483648 \<Longrightarrow> int32 v = v"
  by (simp add: int32_def sint_sbintrunc' signed_take_bit_int_eq_self)

subsection \<open>The publish gate\<close>

text \<open>The blocking wait ends at an instant at which the gate fires.\<close>

lemma waitUntil_meterParticlePublish_fires:
  "meterParticlePublish (s\<lparr>millis := millis (waitUntil_meterParticlePublish s)\<rparr>)
     = (True, waitUntil_meterParticlePublish s)"
  by (simp add: meterParticlePublish_def waitUntil_meterParticlePublish_def Let_def)

text \<open>And at no instant before that.\<close>

lemma gate_closed_sum:
  fixes k d :: "32 word"
  assumes "k < 1000" and "d < 1000 - k"
  shows "k + d < 1000"
proof -
  have k: "unat k < 1000"
    using assms(1) by (simp add: word_less_nat_alt)
  have "unat (1000 - k) = 1000 - unat k"
    using assms(1) by (simp add: unat_sub word_le_nat_alt word_less_nat_alt)
  then have d: "unat d < 1000 - unat k"
    using assms(2) by (simp add: word_less_nat_alt)
  have "unat (k + d) = unat k + unat d"
    using k d by (simp add: unat_add_lem [THEN iffD1])
  then show ?thesis
    using k d by (simp add: word_less_nat_alt)
qed

lemma waitUntil_meterParticlePublish_not_before:
  assumes "d < millis (waitUntil_meterParticlePublish s) - millis s"
  shows "meterParticlePublish (s\<lparr>millis := millis s + d\<rparr>) = (False, s\<lparr>millis := millis s + d\<rparr>)"
proof -
  have closed: "\<not> millis s - lastPublish s \<ge> 1000"
    using assms by (auto simp: waitUntil_meterParticlePublish_def Let_def split: if_splits)
  then have d: "d < 1000 - (millis s - lastPublish s)"
    using assms by (simp add: waitUntil_meterParticlePublish_def Let_def algebra_simps)
  have eq: "millis s + d - lastPublish s = (millis s - lastPublish s) + d"
    by simp
  have "(millis s - lastPublish s) + d < 1000"
    using closed d by (intro gate_closed_sum) (simp_all add: not_le)
  then have "millis s + d - lastPublish s < 1000"
    by (simp only: eq)
  then show ?thesis
    by (simp add: meterParticlePublish_def not_le)
qed

subsection \<open>The sampler\<close>

text \<open>
  A 12-bit reading maps into 0 to 32 amperes, so the sums and differences of the
  sampler stay far from the limits of a C \<^verbatim>\<open>int\<close>.
\<close>

lemma map_range_amps: 
  assumes "0 \<le> v" and "v \<le> 4095"
  shows "0 \<le> map_range v 0 4095 0 32 \<and> map_range v 0 4095 0 32 \<le> 32"
proof -
  have "v * 32 div 4095 \<le> 32"
    using assms by simp
  moreover have "0 \<le> v * 32 div 4095"
    using assms by simp
  ultimately show ?thesis
    using assms by (simp add: map_range_def c_div_def)
qed


lemma pump_session_fst:
  "fst (pump_session e l s) =
     (pumpingEnabled s \<and> pumpAmpsSignificantChange (map_range (pumpCurrentPin e) 0 4095 0 32) l)"
  by (simp add: pump_session_def Let_def)

lemma pump_session_state: "state (snd (pump_session e l s)) = state s"
  by (simp add: pump_session_def Let_def)

lemma pump_session_alertValue:
  "alertValue (snd (pump_session e l s)) =
     (if pumpingEnabled s then alertValue s OR 0x04 else alertValue s)"
  by (simp add: pump_session_def Let_def)

lemma takeMeasurements_alertValue:
  "alertValue (takeMeasurements e s) = new_alertValue e s"
  by (cases "cellular_ready e"; cases "controlPowerPin e"; cases "lowLevelPin e";
      cases "getLostPower e"; cases "pumpingEnabled s")
     (simp_all add: sampler_defs new_alertValue_def
        pump_session_alertValue pump_session_state Let_def split_beta)

lemma takeMeasurements_state:
  "state (takeMeasurements e s) = (if sampler_forces e s then REPORTING_STATE else state s)"
  by (cases "cellular_ready e"; cases "controlPowerPin e"; cases "lowLevelPin e";
      cases "getLostPower e"; cases "pumpingEnabled s")
     (simp_all add: sampler_defs new_alertValue_def sampler_forces_def
        pump_session_alertValue pump_session_state pump_session_fst Let_def split_beta)

lemma sampler_forces_frame:
  "sampler_forces e (s\<lparr>state := x\<rparr>) = sampler_forces e s"
  "sampler_forces e (s\<lparr>lastSample := y\<rparr>) = sampler_forces e s"
  "sampler_forces e (s\<lparr>oldState := x\<rparr>) = sampler_forces e s"
  "sampler_forces e (s\<lparr>trace := tr\<rparr>) = sampler_forces e s"
  "sampler_forces e (s\<lparr>watchdogFlag := w\<rparr>) = sampler_forces e s"
  by (simp_all add: sampler_forces_def new_alertValue_def)

text \<open>Bit 1 of the control register under the sampler's \<^verbatim>\<open>|\<close> and \<^verbatim>\<open>^\<close>.\<close>

lemma session_bit_set: "(x OR 0x02) AND (0x02 :: 8 word) = 0x02"
  by (simp add: bit.conj_disj_distrib2)

lemma session_bit_iff: "(x AND (0x02 :: 8 word) \<noteq> 0) = bit x (Suc 0)"
  using and_exp_eq_0_iff_not_bit [of x 1] by force

lemma session_bit_flip:
  assumes "x AND 0x02 \<noteq> 0"
  shows "(x XOR 0x02) AND (0x02 :: 8 word) = 0"
proof -
  have "bit x (Suc 0)"
    using assms by (simp add: session_bit_iff)
  then have "\<not> bit (x XOR 0x02) (Suc 0)"
    by (simp add: bit_xor_iff)
  then show ?thesis
    using session_bit_iff [of "x XOR 0x02"] by blast
qed

lemma other_bits_or: "(x OR 0x02) AND (0xFD :: 8 word) = x AND 0xFD"
  by (simp add: bit.conj_disj_distrib2)

lemma other_bits_xor: "(x XOR 0x02) AND (0xFD :: 8 word) = x AND 0xFD"
  by (simp add: bit.conj_xor_distrib2)

text \<open>The fields the pump block writes, first for the block, then for the sampler.\<close>

lemma pump_session_pumpAmps:
  "pumpAmps (snd (pump_session e l s)) =
     (if pumpingEnabled s then map_range (pumpCurrentPin e) 0 4095 0 32
      else if controlRegister s AND 0x02 \<noteq> 0 then pumpAmps s else 0)"
  by (simp add: pump_session_def Let_def)

lemma pump_session_fram:
  "fram (snd (pump_session e l s)) =
     (if pumpingEnabled s then
        (if controlRegister s AND 0x02 = 0
         then fram_put_int controlRegisterAddr (uint (controlRegister s OR 0x02))
                (fram_put_long pumpingStartAddr (time_now e) (fram s))
         else fram s)
      else if controlRegister s AND 0x02 \<noteq> 0 then
        fram_put_int dailyPumpingMinsAddr
          (int32 (dailyPumpingMins s + session_minutes (time_now e) (pumpingStart s)))
          (fram_put_int controlRegisterAddr (uint (controlRegister s XOR 0x02)) (fram s))
      else fram s)"
  by (simp add: pump_session_def Let_def)

lemma pump_session_pumpingStart:
  "pumpingStart (snd (pump_session e l s)) =
     (if pumpingEnabled s \<and> controlRegister s AND 0x02 = 0 then time_now e else pumpingStart s)"
  by (simp add: pump_session_def Let_def)

lemma pump_session_dailyPumpingMins:
  "dailyPumpingMins (snd (pump_session e l s)) =
     (if \<not> pumpingEnabled s \<and> controlRegister s AND 0x02 \<noteq> 0
      then int32 (dailyPumpingMins s + session_minutes (time_now e) (pumpingStart s))
      else dailyPumpingMins s)"
  by (simp add: pump_session_def Let_def)

lemmas pump_session_simps = pump_session_fst pump_session_state pump_session_alertValue
  pump_session_pumpAmps pump_session_fram pump_session_pumpingStart pump_session_dailyPumpingMins

lemma takeMeasurements_pumpAmps:
  "pumpAmps (takeMeasurements e s) =
     (if pumpingEnabled s then map_range (pumpCurrentPin e) 0 4095 0 32
      else if session_open (fram s) then pumpAmps s else 0)"
  by (cases "cellular_ready e"; cases "controlPowerPin e"; cases "lowLevelPin e";
      cases "getLostPower e"; cases "pumpingEnabled s"; cases "session_open (fram s)")
     (simp_all add: sampler_defs session_open_def pump_session_simps Let_def split_beta)

lemma takeMeasurements_fram:
  "fram (takeMeasurements e s) =
     (if pumpingEnabled s then
        (if session_open (fram s) then fram s
         else fram_put_int controlRegisterAddr
                (uint (fram_get_byte (fram s) controlRegisterAddr OR 0x02))
                (fram_put_long pumpingStartAddr (time_now e) (fram s)))
      else if session_open (fram s) then
        fram_put_int dailyPumpingMinsAddr
          (int32 (dailyPumpingMins s + session_minutes (time_now e) (pumpingStart s)))
          (fram_put_int controlRegisterAddr
             (uint (fram_get_byte (fram s) controlRegisterAddr XOR 0x02)) (fram s))
      else fram s)"
  by (cases "cellular_ready e"; cases "controlPowerPin e"; cases "lowLevelPin e";
      cases "getLostPower e"; cases "pumpingEnabled s"; cases "session_open (fram s)")
     (simp_all add: sampler_defs session_open_def pump_session_simps Let_def split_beta)

lemma takeMeasurements_pumpingStart:
  "pumpingStart (takeMeasurements e s) =
     (if pumpingEnabled s \<and> \<not> session_open (fram s) then time_now e else pumpingStart s)"
  by (cases "cellular_ready e"; cases "controlPowerPin e"; cases "lowLevelPin e";
      cases "getLostPower e"; cases "pumpingEnabled s"; cases "session_open (fram s)")
     (simp_all add: sampler_defs session_open_def pump_session_simps Let_def split_beta)

lemma takeMeasurements_dailyPumpingMins:
  "dailyPumpingMins (takeMeasurements e s) =
     (if \<not> pumpingEnabled s \<and> session_open (fram s)
      then int32 (dailyPumpingMins s + session_minutes (time_now e) (pumpingStart s))
      else dailyPumpingMins s)"
  by (cases "cellular_ready e"; cases "controlPowerPin e"; cases "lowLevelPin e";
      cases "getLostPower e"; cases "pumpingEnabled s"; cases "session_open (fram s)")
     (simp_all add: sampler_defs session_open_def pump_session_simps Let_def split_beta)

lemma pumpAmpsSignificantChange_abs:
  "pumpAmpsSignificantChange a b = (\<bar>a - b\<bar> \<ge> 2)"
  by (auto simp: pumpAmpsSignificantChange_def)

lemma session_minutes_forward:
  "sint start \<le> sint stop \<Longrightarrow> session_minutes stop start = (sint stop - sint start) div 60"
  by (simp add: session_minutes_def c_div_def)


subsection \<open>What the shared steps leave alone\<close>


lemma transition_notice_fields:
  "fram (transition_notice e s) = fram s"
  "resetCount (transition_notice e s) = resetCount s"
  "hardResetPin (transition_notice e s) = hardResetPin s"
  "resetTimeStamp (transition_notice e s) = resetTimeStamp s"
  "webhookTimeStamp (transition_notice e s) = webhookTimeStamp s"
  "dataInFlight (transition_notice e s) = dataInFlight s"
  "verboseMode (transition_notice e s) = verboseMode s"
  "alertValue (transition_notice e s) = alertValue s"
  "state (transition_notice e s) = state s"
  by (simp_all add: notice_defs gate_defs Let_def)

lemma transition_notice_trace:
  "trace (transition_notice e s) =
     trace s @ (if verboseMode s \<and> state s \<noteq> oldState s \<and> particle_connected e
                   \<and> state s \<noteq> IDLE_STATE
                then [Publish ''State Transition''
                        (take 39 (''From '' @ stateNames (oldState s) @ '' to ''
                                  @ stateNames (state s)))]
                else [])"
  by (simp add: notice_defs gate_defs Let_def)

lemma fullModemReset_trace:
  "trace (fullModemReset e s) =
     trace s @ [CloudDisconnect, CellularCommand modem_reset_command, DeepSleep 10]"
  by (simp add: fullModemReset_def gate_defs Let_def)

lemma fullModemReset_fields:
  "fram (fullModemReset e s) = fram s"
  "hardResetPin (fullModemReset e s) = hardResetPin s"
  "resetCount (fullModemReset e s) = resetCount s"
  by (simp_all add: fullModemReset_def gate_defs Let_def)

lemma verbose_bit_cleared: "(0xF7 AND x) AND (0x08 :: 8 word) = 0"
proof -
  have "(0xF7 AND x) AND (0x08 :: 8 word) = x AND (0xF7 AND 0x08)"
    by (simp add: ac_simps)
  then show ?thesis by simp
qed

lemma verbose_mask_idem: "0xF7 AND (0xF7 AND x) = 0xF7 AND (x :: 8 word)"
  by (simp flip: and.assoc)

subsection \<open>C1: transitions out of Idle\<close>

text \<open>
  C1, as amended. The Idle case tests its three conditions one after another, none
  under an \<^verbatim>\<open>else\<close>, and each that holds overwrites the next state: the last one
  wins. So a pump that is requested on or sensed on gives Pumping; failing that, a
  battery at or below the threshold gives LowBattery; failing that, an hour that
  differs from the hour last reported gives Reporting; failing that, the state stays
  Idle. Whenever the sample gate fires, whichever of the three held, the sampler
  runs, and if it sees the alert bitmask change or the pump current change
  significantly it puts Reporting over all of them. The tick always returns.
\<close>

theorem idle_last_condition_wins:
  assumes "state s = IDLE_STATE"
  shows "loop e s = Inr (loop_IDLE e s) \<and>
    state (loop_IDLE e s) =
     (if millis s - lastSample s \<ge> sampleFrequency \<and> sampler_forces e s then REPORTING_STATE
      else if pumpingEnabled s \<or> pumpControlPin s then PUMPING_STATE
      else if stateOfCharge s \<le> lowBattLimit then LOW_BATTERY_STATE
      else if time_hour e \<noteq> uint (currentHourlyPeriod s) then REPORTING_STATE
      else IDLE_STATE)"
proof -
  define s1 where "s1 = (if watchdogFlag s then petWatchdog s else s)"
  define s2 where "s2 = transition_notice e s1"
  have s2: "s2 = (if verboseMode s \<and> oldState s \<noteq> IDLE_STATE
                  then s1\<lparr>oldState := IDLE_STATE\<rparr> else s1)"
    using assms by (auto simp: s2_def s1_def notice_defs petWatchdog_def Let_def)
  have "state (loop_IDLE e s) =
     (if millis s - lastSample s \<ge> sampleFrequency \<and> sampler_forces e s then REPORTING_STATE
      else if pumpingEnabled s \<or> pumpControlPin s then PUMPING_STATE
      else if stateOfCharge s \<le> lowBattLimit then LOW_BATTERY_STATE
      else if time_hour e \<noteq> uint (currentHourlyPeriod s) then REPORTING_STATE
      else IDLE_STATE)"
    using assms
    apply (simp add: loop_IDLE_def Let_def flip: s1_def s2_def)
    apply (simp add: s2 s1_def meterSampleRate_def petWatchdog_def takeMeasurements_state
        sampler_forces_frame)
    done
  then show ?thesis
    using assms by (simp add: loop_def)
qed

text \<open>
  With the pump requested on, the battery at 25 per cent and a new hour, all at once,
  and a steady pump current, the next state is Pumping.
\<close>

theorem idle_last_condition_wins_witness:
  "state (idle_device\<lparr>currentHourlyPeriod := 8, stateOfCharge := 25, pumpingEnabled := True,
                      alertValue := 4, pumpAmps := 16\<rparr>) = IDLE_STATE \<and>
   loop (fair_env\<lparr>getSoC := 25, pumpCurrentPin := 2048\<rparr>)
     (idle_device\<lparr>currentHourlyPeriod := 8, stateOfCharge := 25, pumpingEnabled := True,
                   alertValue := 4, pumpAmps := 16\<rparr>)
     = Inr (loop_IDLE (fair_env\<lparr>getSoC := 25, pumpCurrentPin := 2048\<rparr>)
              (idle_device\<lparr>currentHourlyPeriod := 8, stateOfCharge := 25,
                            pumpingEnabled := True, alertValue := 4, pumpAmps := 16\<rparr>)) \<and>
   state (loop_IDLE (fair_env\<lparr>getSoC := 25, pumpCurrentPin := 2048\<rparr>)
            (idle_device\<lparr>currentHourlyPeriod := 8, stateOfCharge := 25, pumpingEnabled := True,
                          alertValue := 4, pumpAmps := 16\<rparr>)) = PUMPING_STATE"
  using idle_last_condition_wins
    [of "idle_device\<lparr>currentHourlyPeriod := 8, stateOfCharge := 25, pumpingEnabled := True,
                      alertValue := 4, pumpAmps := 16\<rparr>"
        "fair_env\<lparr>getSoC := 25, pumpCurrentPin := 2048\<rparr>"]
  by (simp add: idle_device_def fair_env_def sampleFrequency_def lowBattLimit_def
      pumpAmpsSignificantChange_def map_range_def c_div_def getLostPower_def
      sampler_forces_def new_alertValue_def)

text \<open>
  Against C1 as stated: in Idle, with a new hour and the battery at 25 per cent, the
  reporting condition and the low-battery condition hold together, and the next state
  is LowBattery, not Reporting.
\<close>

theorem idle_priority_counterexample:
  "state (idle_device\<lparr>currentHourlyPeriod := 8, stateOfCharge := 25\<rparr>) = IDLE_STATE \<and>
   time_hour (fair_env\<lparr>getSoC := 25\<rparr>)
     \<noteq> uint (currentHourlyPeriod (idle_device\<lparr>currentHourlyPeriod := 8, stateOfCharge := 25\<rparr>)) \<and>
   stateOfCharge (idle_device\<lparr>currentHourlyPeriod := 8, stateOfCharge := 25\<rparr>) \<le> lowBattLimit \<and>
   map_sum id state
     (loop (fair_env\<lparr>getSoC := 25\<rparr>)
        (idle_device\<lparr>currentHourlyPeriod := 8, stateOfCharge := 25\<rparr>)) = Inr LOW_BATTERY_STATE"
  by (simp add: loop_defs eval_defs)

subsection \<open>C2: the recovery escalator\<close>

text \<open>
  C2. In the Error state, once the quiet period has passed, exactly one of three
  tiers fires, tried in this order. With \<open>resetCount \<le> 3\<close> the device is reset
  (\<open>SystemReset\<close>), the persistent register and \<open>resetCount\<close> are left as they are,
  the power-cycle pin is not touched and no modem reset is sent. Otherwise, if the
  time since the last acknowledged response exceeds 7200 s, the persisted
  \<open>resetCount\<close> is zeroed and the power-cycle pin is asserted, with no soft reset and
  no modem reset. Otherwise the persisted \<open>resetCount\<close> is zeroed and the full modem
  reset runs (modem command, then deep sleep), with no soft reset and the
  power-cycle pin untouched. The elapsed time is the unsigned 32-bit difference the
  source computes; the persisted count is the \<^verbatim>\<open>int\<close> read back at its address, the
  way start-up reads it. The tick always returns.
\<close>

theorem error_escalation_tiers:
  assumes "state s = ERROR_STATE"
    and "millis (transition_notice e s) - resetTimeStamp s \<ge> resetWait"
  shows
    "loop e s = Inr (loop_ERROR e s) \<and>
     (resetCount s \<le> 3 \<longrightarrow>
        SystemReset \<in> set (emitted s (loop_ERROR e s)) \<and>
        fram (loop_ERROR e s) = fram s \<and> resetCount (loop_ERROR e s) = resetCount s \<and>
        hardResetPin (loop_ERROR e s) = hardResetPin s \<and>
        CellularCommand modem_reset_command \<notin> set (emitted s (loop_ERROR e s)) \<and>
        DeepSleep 10 \<notin> set (emitted s (loop_ERROR e s))) \<and>
     (3 < resetCount s \<and> time_now e - fram_get_long (fram s) lastHookResponseAddr > 7200 \<longrightarrow>
        fram_get_int (fram (loop_ERROR e s)) resetCountAddr = 0 \<and>
        hardResetPin (loop_ERROR e s) = True \<and>
        SystemReset \<notin> set (emitted s (loop_ERROR e s)) \<and>
        CellularCommand modem_reset_command \<notin> set (emitted s (loop_ERROR e s)) \<and>
        DeepSleep 10 \<notin> set (emitted s (loop_ERROR e s))) \<and>
     (3 < resetCount s \<and> time_now e - fram_get_long (fram s) lastHookResponseAddr \<le> 7200 \<longrightarrow>
        fram_get_int (fram (loop_ERROR e s)) resetCountAddr = 0 \<and>
        CellularCommand modem_reset_command \<in> set (emitted s (loop_ERROR e s)) \<and>
        DeepSleep 10 \<in> set (emitted s (loop_ERROR e s)) \<and>
        SystemReset \<notin> set (emitted s (loop_ERROR e s)) \<and>
        hardResetPin (loop_ERROR e s) = hardResetPin s)"
proof -
  let ?s1 = "transition_notice e s"
  have tier1: "resetCount s \<le> 3 \<Longrightarrow>
      loop_ERROR e s = (let s2 = waitUntil_meterParticlePublish ?s1;
                   s3 = (if particle_connected e
                         then publish ''State'' ''Error State - Reset'' s2 else s2);
                   s4 = delay 2000 s3
               in s4\<lparr>trace := trace s4 @ [SystemReset]\<rparr>)"
    using assms by (simp add: loop_ERROR_def transition_notice_fields Let_def)
  have tier2: "3 < resetCount s \<Longrightarrow> time_now e - fram_get_long (fram s) lastHookResponseAddr > 7200 \<Longrightarrow>
      loop_ERROR e s = (let s2 = waitUntil_meterParticlePublish ?s1;
                   s3 = (if particle_connected e
                         then publish ''State'' ''Error State - Power Cycle'' s2 else s2);
                   s4 = delay 2000 s3;
                   s5 = s4\<lparr>fram := fram_put_int resetCountAddr 0 (fram s4)\<rparr>
               in s5\<lparr>hardResetPin := True\<rparr>)"
    using assms by (simp add: loop_ERROR_def transition_notice_fields Let_def)
  have tier3: "3 < resetCount s \<Longrightarrow> time_now e - fram_get_long (fram s) lastHookResponseAddr \<le> 7200 \<Longrightarrow>
      loop_ERROR e s = (let s2 = waitUntil_meterParticlePublish ?s1;
                   s3 = (if particle_connected e
                         then publish ''State'' ''Error State - Full Modem Reset'' s2 else s2);
                   s4 = delay 2000 s3;
                   s5 = s4\<lparr>fram := fram_put_int resetCountAddr 0 (fram s4)\<rparr>
               in fullModemReset e s5)"
    using assms by (simp add: loop_ERROR_def transition_notice_fields Let_def not_less)
  have c1: "resetCount s \<le> 3 \<Longrightarrow>
        SystemReset \<in> set (emitted s (loop_ERROR e s)) \<and>
        fram (loop_ERROR e s) = fram s \<and> resetCount (loop_ERROR e s) = resetCount s \<and>
        hardResetPin (loop_ERROR e s) = hardResetPin s \<and>
        CellularCommand modem_reset_command \<notin> set (emitted s (loop_ERROR e s)) \<and>
        DeepSleep 10 \<notin> set (emitted s (loop_ERROR e s))"
    by (simp add: tier1 emitted_def gate_defs transition_notice_fields transition_notice_trace
        Let_def)
  have c2: "3 < resetCount s \<Longrightarrow> time_now e - fram_get_long (fram s) lastHookResponseAddr > 7200 \<Longrightarrow>
        fram_get_int (fram (loop_ERROR e s)) resetCountAddr = 0 \<and>
        hardResetPin (loop_ERROR e s) = True \<and>
        SystemReset \<notin> set (emitted s (loop_ERROR e s)) \<and>
        CellularCommand modem_reset_command \<notin> set (emitted s (loop_ERROR e s)) \<and>
        DeepSleep 10 \<notin> set (emitted s (loop_ERROR e s))"
    by (simp add: tier2 emitted_def gate_defs transition_notice_fields transition_notice_trace
        fram_get_put_int int32_def Let_def)
  have c3: "3 < resetCount s \<Longrightarrow> time_now e - fram_get_long (fram s) lastHookResponseAddr \<le> 7200 \<Longrightarrow>
        fram_get_int (fram (loop_ERROR e s)) resetCountAddr = 0 \<and>
        CellularCommand modem_reset_command \<in> set (emitted s (loop_ERROR e s)) \<and>
        DeepSleep 10 \<in> set (emitted s (loop_ERROR e s)) \<and>
        SystemReset \<notin> set (emitted s (loop_ERROR e s)) \<and>
        hardResetPin (loop_ERROR e s) = hardResetPin s"
    by (simp add: tier3 emitted_def gate_defs transition_notice_fields transition_notice_trace
        fullModemReset_trace fullModemReset_fields fram_get_put_int int32_def Let_def)
  have c0: "loop e s = Inr (loop_ERROR e s)"
    using assms by (simp add: loop_def)
  from c0 c1 c2 c3 show ?thesis by blast
qed

text \<open>
  Scenario E and its neighbours: four resets with a stale acknowledgment give the
  power cycle and no soft reset; one reset gives the soft reset; four resets with an
  acknowledgment one hour old give the modem reset.
\<close>

theorem error_escalation_tiers_witness:
  "state error_device = ERROR_STATE \<and>
   millis (transition_notice fair_env error_device) - resetTimeStamp error_device \<ge> resetWait \<and>
   loop fair_env error_device = Inr (loop_ERROR fair_env error_device) \<and>
   resetCount error_device = 4 \<and>
   time_now fair_env - fram_get_long (fram error_device) lastHookResponseAddr > 7200 \<and>
   fram_get_int (fram (loop_ERROR fair_env error_device)) resetCountAddr = 0 \<and>
   hardResetPin (loop_ERROR fair_env error_device) = True \<and>
   SystemReset \<notin> set (emitted error_device (loop_ERROR fair_env error_device)) \<and>
   resetCount (error_device\<lparr>resetCount := 1\<rparr>) \<le> 3 \<and>
   SystemReset \<in> set (emitted (error_device\<lparr>resetCount := 1\<rparr>)
                        (loop_ERROR fair_env (error_device\<lparr>resetCount := 1\<rparr>))) \<and>
   time_now (fair_env\<lparr>time_now := 1549993600\<rparr>)
     - fram_get_long (fram error_device) lastHookResponseAddr \<le> 7200 \<and>
   DeepSleep 10
     \<in> set (emitted error_device (loop_ERROR (fair_env\<lparr>time_now := 1549993600\<rparr>) error_device))"
proof -
  let ?soft = "error_device\<lparr>resetCount := 1\<rparr>"
  let ?recent = "fair_env\<lparr>time_now := 1549993600\<rparr>"
  have st: "state error_device = ERROR_STATE" "state ?soft = ERROR_STATE"
    by (simp_all add: error_device_def example_defs)
  have quiet:
    "millis (transition_notice fair_env error_device) - resetTimeStamp error_device \<ge> resetWait"
    "millis (transition_notice fair_env ?soft) - resetTimeStamp ?soft \<ge> resetWait"
    "millis (transition_notice ?recent error_device) - resetTimeStamp error_device \<ge> resetWait"
    by (simp_all add: error_device_def example_defs transition_notice_def resetWait_def)
  have cnt: "resetCount error_device = 4" "3 < resetCount error_device" "resetCount ?soft \<le> 3"
    by (simp_all add: error_device_def example_defs)
  have stale: "time_now fair_env - fram_get_long (fram error_device) lastHookResponseAddr > 7200"
    by (simp add: error_device_def example_defs)
  have recent: "time_now ?recent - fram_get_long (fram error_device) lastHookResponseAddr \<le> 7200"
    by (simp add: error_device_def example_defs)
  from error_escalation_tiers [OF st(1) quiet(1)] cnt(2) stale
  have 1: "fram_get_int (fram (loop_ERROR fair_env error_device)) resetCountAddr = 0"
    "hardResetPin (loop_ERROR fair_env error_device) = True"
    "SystemReset \<notin> set (emitted error_device (loop_ERROR fair_env error_device))"
    "loop fair_env error_device = Inr (loop_ERROR fair_env error_device)" by blast+
  from error_escalation_tiers [OF st(2) quiet(2)] cnt(3)
  have 2: "SystemReset \<in> set (emitted ?soft (loop_ERROR fair_env ?soft))" by blast
  from error_escalation_tiers [OF st(1) quiet(3)] cnt(2) recent
  have 3: "DeepSleep 10 \<in> set (emitted error_device (loop_ERROR ?recent error_device))" by blast
  from st quiet cnt stale recent 1 2 3 show ?thesis by blast
qed

subsection \<open>C3: the pumping session\<close>

text \<open>The control byte and the two values the pump block persists, read back.\<close>

lemma control_after_open:
  "fram_get_byte (fram_put_int controlRegisterAddr (uint (x :: 8 word)) fr) controlRegisterAddr = x"
  by (simp add: fram_put_promoted_byte fram_get_byte_def)

lemma control_after_close:
  "fram_get_byte (fram_put_int dailyPumpingMinsAddr m
        (fram_put_int controlRegisterAddr (uint (x :: 8 word)) fr)) controlRegisterAddr = x"
  by (simp add: fram_get_byte_def fram_put_int_def fram_put_long_def promoted_byte addr_defs)

lemma start_after_open:
  "fram_get_long (fram_put_int controlRegisterAddr v (fram_put_long pumpingStartAddr w fr))
     pumpingStartAddr = w"
  by (simp add: fram_put_int_def fram_get_long_other fram_get_put_long addr_defs)

lemma fram_get_put_byte: "fram_get_byte (fram_put_byte a b fr) a = b"
  by (simp add: fram_get_byte_def fram_put_byte_def)

lemma connectToParticle_fields:
  "fram (snd (connectToParticle e s)) = fram s"
  "pumpingStart (snd (connectToParticle e s)) = pumpingStart s"
  "state (snd (connectToParticle e s)) = state s"
  by (simp_all add: connectToParticle_def gate_defs Let_def)

lemma setup_device_fram:
  "fram (setup_device e (power_on fr)) =
     (if pin_reset e
      then fram_put_int resetCountAddr (int32 (fram_get_int fr resetCountAddr + 1)) fr else fr)"
  by (cases "pin_reset e"; cases "lowBattLimit < getSoC e")
     (simp_all add: setup_device_def power_on_def publish_def connectToParticle_fields Let_def)

lemma setup_device_control:
  "fram_get_byte (fram (setup_device e (power_on fr))) controlRegisterAddr
     = fram_get_byte fr controlRegisterAddr"
  by (simp add: setup_device_fram fram_get_byte_def fram_put_int_def fram_put_long_other
      addr_defs)

lemma setup_device_pumpingStart:
  "pumpingStart (setup_device e (power_on fr)) =
     (if fram_get_byte fr controlRegisterAddr AND 0x02 \<noteq> 0
      then fram_get_long (fram (setup_device e (power_on fr))) pumpingStartAddr else 0)"
proof -
  have ctl: "fram_get_byte (fram_put_int resetCountAddr v fr) controlRegisterAddr
      = fram_get_byte fr controlRegisterAddr" for v
    by (simp add: fram_get_byte_def fram_put_int_def fram_put_long_other addr_defs)
  show ?thesis
    unfolding setup_device_fram
    by (cases "pin_reset e"; cases "lowBattLimit < getSoC e";
        cases "fram_get_byte fr controlRegisterAddr AND 0x02 = 0")
       (simp_all add: setup_device_def power_on_def publish_def connectToParticle_fields ctl
         Let_def)
qed

text \<open>
  C3, as amended. The session-open bit (bit 1 of the persisted control register)
  follows the pump request at each run of the sampler, not in between: every run
  leaves the bit set exactly when the pump is requested on. When the pump is requested
  on and no session is open, the sampler records the current time as the session
  start, in memory and in the persistent register, and sets the bit; the minutes in
  memory are untouched. When the pump is requested off and the bit is set, the sampler
  clears the bit, adds the whole minutes elapsed since the session start to the daily
  pumping minutes (a 32-bit \<^verbatim>\<open>int\<close>: the plain sum whenever that is in range) and
  persists the new total; the start in memory is left as it is. In the two other cases
  the persistent register, the start and the minutes are unchanged. The sampler never
  changes the other bits of the control byte. Start-up leaves the bit as it finds it
  and reads the session start back only when the bit is set. For a start not after
  the current time the minutes are the elapsed seconds divided by 60, rounded down.
\<close>

theorem pumping_session_bookkeeping:
  "(session_open (fram (takeMeasurements e s)) \<longleftrightarrow> pumpingEnabled s) \<and>
   (pumpingEnabled s \<and> \<not> session_open (fram s) \<longrightarrow>
      pumpingStart (takeMeasurements e s) = time_now e \<and>
      fram_get_long (fram (takeMeasurements e s)) pumpingStartAddr = time_now e \<and>
      session_open (fram (takeMeasurements e s)) \<and>
      dailyPumpingMins (takeMeasurements e s) = dailyPumpingMins s) \<and>
   (\<not> pumpingEnabled s \<and> session_open (fram s) \<longrightarrow>
      \<not> session_open (fram (takeMeasurements e s)) \<and>
      dailyPumpingMins (takeMeasurements e s)
        = int32 (dailyPumpingMins s + session_minutes (time_now e) (pumpingStart s)) \<and>
      fram_get_int (fram (takeMeasurements e s)) dailyPumpingMinsAddr
        = dailyPumpingMins (takeMeasurements e s) \<and>
      pumpingStart (takeMeasurements e s) = pumpingStart s) \<and>
   (\<not> pumpingEnabled s \<and> session_open (fram s) \<and>
    - 2147483648 \<le> dailyPumpingMins s + session_minutes (time_now e) (pumpingStart s) \<and>
    dailyPumpingMins s + session_minutes (time_now e) (pumpingStart s) < 2147483648 \<longrightarrow>
      dailyPumpingMins (takeMeasurements e s)
        = dailyPumpingMins s + session_minutes (time_now e) (pumpingStart s)) \<and>
   ((pumpingEnabled s \<longleftrightarrow> session_open (fram s)) \<longrightarrow>
      fram (takeMeasurements e s) = fram s \<and>
      pumpingStart (takeMeasurements e s) = pumpingStart s \<and>
      dailyPumpingMins (takeMeasurements e s) = dailyPumpingMins s) \<and>
   fram_get_byte (fram (takeMeasurements e s)) controlRegisterAddr AND 0xFD
     = fram_get_byte (fram s) controlRegisterAddr AND 0xFD \<and>
   (session_open (fram (setup_device e (power_on fr))) \<longleftrightarrow> session_open fr) \<and>
   pumpingStart (setup_device e (power_on fr))
     = (if session_open fr
        then fram_get_long (fram (setup_device e (power_on fr))) pumpingStartAddr else 0) \<and>
   (sint (pumpingStart s) \<le> sint (time_now e) \<longrightarrow>
      session_minutes (time_now e) (pumpingStart s)
        = (sint (time_now e) - sint (pumpingStart s)) div 60)"
proof -
  have bits: "session_open (fram (takeMeasurements e s)) \<longleftrightarrow> pumpingEnabled s"
    by (cases "pumpingEnabled s"; cases "session_open (fram s)")
       (simp_all add: takeMeasurements_fram,
        simp_all add: session_open_def control_after_open control_after_close
          session_bit_set session_bit_flip)
  have others: "fram_get_byte (fram (takeMeasurements e s)) controlRegisterAddr AND 0xFD
     = fram_get_byte (fram s) controlRegisterAddr AND 0xFD"
    by (simp add: takeMeasurements_fram control_after_open control_after_close
        other_bits_or other_bits_xor)
  have opens: "pumpingEnabled s \<and> \<not> session_open (fram s) \<longrightarrow>
      pumpingStart (takeMeasurements e s) = time_now e \<and>
      fram_get_long (fram (takeMeasurements e s)) pumpingStartAddr = time_now e \<and>
      dailyPumpingMins (takeMeasurements e s) = dailyPumpingMins s"
    by (simp add: takeMeasurements_fram takeMeasurements_pumpingStart
        takeMeasurements_dailyPumpingMins start_after_open)
  have closes: "\<not> pumpingEnabled s \<and> session_open (fram s) \<longrightarrow>
      dailyPumpingMins (takeMeasurements e s)
        = int32 (dailyPumpingMins s + session_minutes (time_now e) (pumpingStart s)) \<and>
      fram_get_int (fram (takeMeasurements e s)) dailyPumpingMinsAddr
        = dailyPumpingMins (takeMeasurements e s) \<and>
      pumpingStart (takeMeasurements e s) = pumpingStart s"
    by (simp add: takeMeasurements_fram takeMeasurements_dailyPumpingMins
        takeMeasurements_pumpingStart fram_get_put_int int32_idem)
  have plain: "\<not> pumpingEnabled s \<and> session_open (fram s) \<and>
    - 2147483648 \<le> dailyPumpingMins s + session_minutes (time_now e) (pumpingStart s) \<and>
    dailyPumpingMins s + session_minutes (time_now e) (pumpingStart s) < 2147483648 \<longrightarrow>
      dailyPumpingMins (takeMeasurements e s)
        = dailyPumpingMins s + session_minutes (time_now e) (pumpingStart s)"
    by (simp add: takeMeasurements_dailyPumpingMins int32_in_range)
  have steady: "(pumpingEnabled s \<longleftrightarrow> session_open (fram s)) \<longrightarrow>
      fram (takeMeasurements e s) = fram s \<and>
      pumpingStart (takeMeasurements e s) = pumpingStart s \<and>
      dailyPumpingMins (takeMeasurements e s) = dailyPumpingMins s"
    by (simp add: takeMeasurements_fram takeMeasurements_pumpingStart
        takeMeasurements_dailyPumpingMins)
  have boot: "session_open (fram (setup_device e (power_on fr))) \<longleftrightarrow> session_open fr"
    "pumpingStart (setup_device e (power_on fr))
     = (if session_open fr
        then fram_get_long (fram (setup_device e (power_on fr))) pumpingStartAddr else 0)"
    by (simp_all add: session_open_def setup_device_control setup_device_pumpingStart)
  have minutes: "sint (pumpingStart s) \<le> sint (time_now e) \<longrightarrow>
      session_minutes (time_now e) (pumpingStart s)
        = (sint (time_now e) - sint (pumpingStart s)) div 60"
    by (simp add: session_minutes_forward)
  from bits others opens closes plain steady boot minutes show ?thesis
    by blast
qed

text \<open>
  Scenario F. From a state with no session open and the pump requested on, the
  sampler opens the session at the current time; from a state 1000 s into a session
  with the pump requested off, it closes the session with 16 minutes added and
  persisted; with the pump still on during a session, it changes nothing in the
  register.
\<close>

theorem pumping_session_bookkeeping_witness:
  "pumpingEnabled (idle_device\<lparr>pumpingEnabled := True\<rparr>) \<and>
   \<not> session_open (fram (idle_device\<lparr>pumpingEnabled := True\<rparr>)) \<and>
   session_open (fram (takeMeasurements fair_env (idle_device\<lparr>pumpingEnabled := True\<rparr>))) \<and>
   pumpingStart (takeMeasurements fair_env (idle_device\<lparr>pumpingEnabled := True\<rparr>))
     = 1550000000 \<and>
   fram_get_long (fram (takeMeasurements fair_env (idle_device\<lparr>pumpingEnabled := True\<rparr>)))
     pumpingStartAddr = 1550000000 \<and>
   \<not> pumpingEnabled (pumping_device\<lparr>pumpingEnabled := False\<rparr>) \<and>
   session_open (fram (pumping_device\<lparr>pumpingEnabled := False\<rparr>)) \<and>
   sint (pumpingStart (pumping_device\<lparr>pumpingEnabled := False\<rparr>)) \<le> sint (time_now fair_env) \<and>
   \<not> session_open (fram (takeMeasurements fair_env (pumping_device\<lparr>pumpingEnabled := False\<rparr>))) \<and>
   dailyPumpingMins (takeMeasurements fair_env (pumping_device\<lparr>pumpingEnabled := False\<rparr>)) = 16 \<and>
   fram_get_int (fram (takeMeasurements fair_env (pumping_device\<lparr>pumpingEnabled := False\<rparr>)))
     dailyPumpingMinsAddr = 16 \<and>
   pumpingEnabled pumping_device \<and> session_open (fram pumping_device) \<and>
   fram (takeMeasurements fair_env pumping_device) = fram pumping_device"
proof -
  let ?on = "idle_device\<lparr>pumpingEnabled := True\<rparr>"
  let ?off = "pumping_device\<lparr>pumpingEnabled := False\<rparr>"
  have on: "pumpingEnabled ?on" "\<not> session_open (fram ?on)"
    by (simp_all add: idle_device_def session_open_def fram_get_byte_def fram_erase_def)
  have ctl: "fram_get_byte (fram pumping_device) controlRegisterAddr = 0x02"
    by (simp add: pumping_device_def idle_device_def fram_get_byte_def fram_put_long_other
        fram_put_byte_def addr_defs)
  have off: "\<not> pumpingEnabled ?off" "session_open (fram ?off)"
    "sint (pumpingStart ?off) \<le> sint (time_now fair_env)"
    "dailyPumpingMins ?off = 0"
    "(sint (time_now fair_env) - sint (pumpingStart ?off)) div 60 = 16"
    using ctl by (simp_all add: pumping_device_def idle_device_def fair_env_def session_open_def)
  have run: "pumpingEnabled pumping_device" "session_open (fram pumping_device)"
    using ctl by (simp_all add: pumping_device_def idle_device_def session_open_def)
  have now: "time_now fair_env = 1550000000"
    by (simp add: fair_env_def)
  from pumping_session_bookkeeping [of fair_env ?on fram_erase] on now
  have 1: "session_open (fram (takeMeasurements fair_env ?on))"
    "pumpingStart (takeMeasurements fair_env ?on) = 1550000000"
    "fram_get_long (fram (takeMeasurements fair_env ?on)) pumpingStartAddr = 1550000000"
    by metis+
  from pumping_session_bookkeeping [of fair_env ?off fram_erase] off
  have 2: "\<not> session_open (fram (takeMeasurements fair_env ?off))"
    "dailyPumpingMins (takeMeasurements fair_env ?off) = 16"
    "fram_get_int (fram (takeMeasurements fair_env ?off)) dailyPumpingMinsAddr = 16"
    by (simp_all add: int32_def)
  from pumping_session_bookkeeping [of fair_env pumping_device fram_erase] run
  have 3: "fram (takeMeasurements fair_env pumping_device) = fram pumping_device"
    by simp
  from on off run 1 2 3 show ?thesis by simp
qed

text \<open>
  Against C3 as stated, in both directions. A device restarted over a register whose
  session bit is set is in a reachable state with the bit set while the pump is neither
  requested nor switched on. A device asked for the pump and two ticks on, before the
  sampler's next run, is in a reachable state with the pump requested and switched on
  while the bit is clear.
\<close>

theorem session_flag_counterexample:
  "reachable restarted_device \<and>
   session_open (fram restarted_device) \<and>
   pumpingEnabled restarted_device = False \<and>
   pumpControlPin restarted_device = False \<and>
   reachable running_device \<and>
   pumpingEnabled running_device \<and>
   pumpControlPin running_device \<and>
   session_open (fram running_device) = False"
proof -
  let ?e = "fair_env\<lparr>cloud_ms := 1000\<rparr>"
  let ?s0 = "setup_device ?e (power_on fram_erase)"
  have r1: "reachable restarted_device"
    unfolding restarted_device_def by (rule reachable.start)
  have bit: "session_open (fram restarted_device)"
    unfolding restarted_device_def
    by (simp add: session_open_def setup_device_control fram_get_put_byte)
  have off: "pumpingEnabled restarted_device = False" "pumpControlPin restarted_device = False"
    by (simp_all add: restarted_device_def setup_device_def power_on_def connectToParticle_def
        fair_env_def gate_defs lowBattLimit_def Let_def)
  have s0: "state ?s0 = IDLE_STATE" "millis ?s0 = 1000" "lastSample ?s0 = 0"
    "watchdogFlag ?s0 = False" "verboseMode ?s0 = False" "pumpControlPin ?s0 = False"
    "fram ?s0 = fram_erase" "stateOfCharge ?s0 = 80" "currentHourlyPeriod ?s0 = 0"
    by (simp_all add: setup_device_def power_on_def connectToParticle_def
        fair_env_def gate_defs lowBattLimit_def fram_get_byte_def fram_erase_def Let_def)
  have req: "state requested_device = IDLE_STATE" "millis requested_device = 1000"
    "lastSample requested_device = 0" "watchdogFlag requested_device = False"
    "verboseMode requested_device = False" "pumpControlPin requested_device = False"
    "fram requested_device = fram_erase" "stateOfCharge requested_device = 80"
    "pumpingEnabled requested_device = True"
    by (simp_all add: requested_device_def pumpControl_def s0)
  have idle: "loop_IDLE ?e requested_device = requested_device\<lparr>state := PUMPING_STATE\<rparr>"
    by (simp add: loop_IDLE_def req notice_defs gate_defs sampleFrequency_def
        lowBattLimit_def Let_def)
  have run: "running_device
      = requested_device\<lparr>state := IDLE_STATE, pumpControlPin := True, blueLED := True,
          pumpBackupTimer := True\<rparr>"
    by (simp add: running_device_def idle loop_PUMPING_def req notice_defs gate_defs Let_def)
  have t1: "loop ?e requested_device = Inr (loop_IDLE ?e requested_device)"
    by (simp add: loop_def req)
  have t2: "loop ?e (loop_IDLE ?e requested_device) = Inr running_device"
    by (simp add: loop_def idle running_device_def)
  have r0: "reachable requested_device"
    unfolding requested_device_def by (intro reachable.call_pumpControl reachable.start)
  have r2: "reachable running_device"
    using reachable.tick [OF reachable.tick [OF r0 t1] t2] .
  have on: "pumpingEnabled running_device" "pumpControlPin running_device"
    "session_open (fram running_device) = False"
    by (simp_all add: run req session_open_def fram_get_byte_def fram_erase_def)
  from r1 bit off r2 on show ?thesis by blast
qed

subsection \<open>C4: waiting for the response\<close>

text \<open>
  C4. A tick in RespWait: if \<open>dataInFlight\<close> is clear the next state is Idle;
  otherwise, if the time since the event was sent is at least the webhook timeout of
  45000 ms, the next state is Error and the fault time is recorded in
  \<open>resetTimeStamp\<close>; otherwise the state stays RespWait and no fault time is written.
  The clock is read after the verbose-mode notice, which may itself have waited for
  the publish gate. The tick always returns.
\<close>

theorem resp_wait_tick:
  assumes "state s = RESP_WAIT_STATE"
  shows "loop e s = Inr (loop_RESP_WAIT e s) \<and> webhookWait = 45000 \<and>
    (\<not> dataInFlight s \<longrightarrow> state (loop_RESP_WAIT e s) = IDLE_STATE) \<and>
    (dataInFlight s \<and> millis (transition_notice e s) - webhookTimeStamp s \<ge> webhookWait \<longrightarrow>
       state (loop_RESP_WAIT e s) = ERROR_STATE \<and>
       resetTimeStamp (loop_RESP_WAIT e s) = millis (transition_notice e s)) \<and>
    (dataInFlight s \<and> millis (transition_notice e s) - webhookTimeStamp s < webhookWait \<longrightarrow>
       state (loop_RESP_WAIT e s) = RESP_WAIT_STATE \<and>
       resetTimeStamp (loop_RESP_WAIT e s) = resetTimeStamp s)"
  using assms
  by (auto simp add: loop_def loop_RESP_WAIT_def notice_defs gate_defs webhookWait_def Let_def
      not_le)

text \<open>Exactly 45000 ms after the send, 1 ms before that, and after an acknowledgment.\<close>

theorem resp_wait_tick_witness:
  "state waiting_device = RESP_WAIT_STATE \<and>
   loop fair_env waiting_device = Inr (loop_RESP_WAIT fair_env waiting_device) \<and>
   dataInFlight waiting_device \<and>
   millis (transition_notice fair_env waiting_device) - webhookTimeStamp waiting_device
     \<ge> webhookWait \<and>
   state (loop_RESP_WAIT fair_env waiting_device) = ERROR_STATE \<and>
   resetTimeStamp (loop_RESP_WAIT fair_env waiting_device) = 55000 \<and>
   millis (transition_notice fair_env (waiting_device\<lparr>millis := 54999\<rparr>))
      - webhookTimeStamp (waiting_device\<lparr>millis := 54999\<rparr>) < webhookWait \<and>
   state (loop_RESP_WAIT fair_env (waiting_device\<lparr>millis := 54999\<rparr>)) = RESP_WAIT_STATE \<and>
   \<not> dataInFlight (waiting_device\<lparr>dataInFlight := False\<rparr>) \<and>
   state (loop_RESP_WAIT fair_env (waiting_device\<lparr>dataInFlight := False\<rparr>)) = IDLE_STATE"
proof -
  let ?late = waiting_device
  let ?early = "waiting_device\<lparr>millis := 54999\<rparr>"
  let ?acked = "waiting_device\<lparr>dataInFlight := False\<rparr>"
  have st: "state ?late = RESP_WAIT_STATE" "state ?early = RESP_WAIT_STATE"
    "state ?acked = RESP_WAIT_STATE"
    by (simp_all add: waiting_device_def example_defs)
  have fl: "dataInFlight ?late" "dataInFlight ?early" "\<not> dataInFlight ?acked"
    by (simp_all add: waiting_device_def example_defs)
  have late: "millis (transition_notice fair_env ?late) - webhookTimeStamp ?late \<ge> webhookWait"
    "millis (transition_notice fair_env ?late) = 55000"
    by (simp_all add: waiting_device_def example_defs transition_notice_def webhookWait_def)
  have early: "millis (transition_notice fair_env ?early) - webhookTimeStamp ?early < webhookWait"
    by (simp add: waiting_device_def example_defs transition_notice_def webhookWait_def)
  from resp_wait_tick [OF st(1), of fair_env] fl(1) late
  have 1: "state (loop_RESP_WAIT fair_env ?late) = ERROR_STATE"
    "resetTimeStamp (loop_RESP_WAIT fair_env ?late) = 55000"
    "loop fair_env ?late = Inr (loop_RESP_WAIT fair_env ?late)" by metis+
  from resp_wait_tick [OF st(2), of fair_env] fl(2) early
  have 2: "state (loop_RESP_WAIT fair_env ?early) = RESP_WAIT_STATE" by metis
  from resp_wait_tick [OF st(3), of fair_env] fl(3)
  have 3: "state (loop_RESP_WAIT fair_env ?acked) = IDLE_STATE" by metis
  from st fl late early 1 2 3 show ?thesis by blast
qed

subsection \<open>C5: the acknowledgment handler\<close>

text \<open>
  C5. \<^verbatim>\<open>UbidotsHandler\<close>: with no payload, \<open>dataInFlight\<close> and the persisted time of
  the last acknowledgment are unchanged; with a payload whose numeric code is 200 or
  201, the current time is stored as the last acknowledgment time in the persistent
  register and \<open>dataInFlight\<close> is cleared; with any other code both are unchanged.
  The persisted time is the 32-bit value read back at its address.
\<close>

theorem UbidotsHandler_cases:
  "(dataInFlight (UbidotsHandler e None s) = dataInFlight s \<and>
    fram_get_long (fram (UbidotsHandler e None s)) lastHookResponseAddr
      = fram_get_long (fram s) lastHookResponseAddr) \<and>
   (atoi d = 200 \<or> atoi d = 201 \<longrightarrow>
      fram_get_long (fram (UbidotsHandler e (Some d) s)) lastHookResponseAddr = time_now e \<and>
      dataInFlight (UbidotsHandler e (Some d) s) = False) \<and>
   (atoi d \<noteq> 200 \<and> atoi d \<noteq> 201 \<longrightarrow>
      dataInFlight (UbidotsHandler e (Some d) s) = dataInFlight s \<and>
      fram_get_long (fram (UbidotsHandler e (Some d) s)) lastHookResponseAddr
        = fram_get_long (fram s) lastHookResponseAddr)"
  by (simp add: UbidotsHandler_def gate_defs fram_get_put_long Let_def)

text \<open>Codes 201 and 404 arriving while an event is in flight.\<close>

theorem UbidotsHandler_cases_witness:
  "(atoi ''201'' = 200 \<or> atoi ''201'' = 201) \<and>
   fram_get_long
     (fram (UbidotsHandler fair_env (Some ''201'') (idle_device\<lparr>dataInFlight := True\<rparr>)))
     lastHookResponseAddr = 1550000000 \<and>
   dataInFlight (UbidotsHandler fair_env (Some ''201'') (idle_device\<lparr>dataInFlight := True\<rparr>))
     = False \<and>
   (atoi ''404'' \<noteq> 200 \<and> atoi ''404'' \<noteq> 201) \<and>
   dataInFlight (UbidotsHandler fair_env (Some ''404'') (idle_device\<lparr>dataInFlight := True\<rparr>))
     = True \<and>
   fram_get_long
     (fram (UbidotsHandler fair_env (Some ''404'') (idle_device\<lparr>dataInFlight := True\<rparr>)))
     lastHookResponseAddr = 0"
  using UbidotsHandler_cases [of fair_env "idle_device\<lparr>dataInFlight := True\<rparr>" "''201''"]
    UbidotsHandler_cases [of fair_env "idle_device\<lparr>dataInFlight := True\<rparr>" "''404''"]
  by (simp add: strtol_defs idle_device_def fair_env_def fram_erase_def fram_get_long_def)

subsection \<open>C6: significant change of the pump current\<close>

text \<open>
  C6. With the pump requested on, the sampler maps the raw reading to amperes and
  compares it with the previous reading: the source's test is true exactly when the
  absolute difference is at least 2, and the sampler forces Reporting exactly when
  that difference is at least 2 or the alert bitmask changed; otherwise it leaves the
  state alone.
\<close>

theorem pump_current_significant_change:
  assumes "pumpingEnabled s"
  shows "pumpAmps (takeMeasurements e s) = map_range (pumpCurrentPin e) 0 4095 0 32 \<and>
    (pumpAmpsSignificantChange (pumpAmps (takeMeasurements e s)) (pumpAmps s)
       \<longleftrightarrow> \<bar>pumpAmps (takeMeasurements e s) - pumpAmps s\<bar> \<ge> 2) \<and>
    state (takeMeasurements e s) =
      (if \<bar>pumpAmps (takeMeasurements e s) - pumpAmps s\<bar> \<ge> 2
          \<or> alertValue (takeMeasurements e s) \<noteq> alertValue s
       then REPORTING_STATE else state s)"
  using assms
  by (auto simp add: takeMeasurements_pumpAmps takeMeasurements_state takeMeasurements_alertValue
      sampler_forces_def pumpAmpsSignificantChange_abs)

text \<open>
  A reading of 16 A after 14 A (a difference of exactly 2) forces Reporting; the same
  reading after 15 A (a difference of 1) does not.
\<close>

theorem pump_current_significant_change_witness:
  "pumpingEnabled pumping_device \<and>
   pumpAmps pumping_device = 14 \<and>
   pumpAmps (takeMeasurements (fair_env\<lparr>pumpCurrentPin := 2048\<rparr>) pumping_device) = 16 \<and>
   state pumping_device = IDLE_STATE \<and>
   state (takeMeasurements (fair_env\<lparr>pumpCurrentPin := 2048\<rparr>) pumping_device)
     = REPORTING_STATE \<and>
   pumpAmps (pumping_device\<lparr>pumpAmps := 15\<rparr>) = 15 \<and>
   pumpAmps (takeMeasurements (fair_env\<lparr>pumpCurrentPin := 2048\<rparr>)
               (pumping_device\<lparr>pumpAmps := 15\<rparr>)) = 16 \<and>
   state (takeMeasurements (fair_env\<lparr>pumpCurrentPin := 2048\<rparr>)
            (pumping_device\<lparr>pumpAmps := 15\<rparr>)) = IDLE_STATE"
proof -
  let ?e = "fair_env\<lparr>pumpCurrentPin := 2048\<rparr>"
  let ?one = "pumping_device\<lparr>pumpAmps := 15\<rparr>"
  have on: "pumpingEnabled pumping_device" "pumpingEnabled ?one"
    by (simp_all add: pumping_device_def example_defs)
  have before: "pumpAmps pumping_device = 14" "pumpAmps ?one = 15"
    "state pumping_device = IDLE_STATE" "state ?one = IDLE_STATE"
    "alertValue pumping_device = 4" "alertValue ?one = 4"
    by (simp_all add: pumping_device_def example_defs)
  have reading: "map_range (pumpCurrentPin ?e) 0 4095 0 32 = 16"
    by (simp add: pumping_device_def example_defs map_range_def c_div_def)
  have alert: "alertValue (takeMeasurements ?e pumping_device) = 4"
    "alertValue (takeMeasurements ?e ?one) = 4"
    by (simp_all add: takeMeasurements_alertValue new_alertValue_def getLostPower_def
        pumping_device_def example_defs)
  from pump_current_significant_change [OF on(1), of ?e] before reading alert
  have two: "pumpAmps (takeMeasurements ?e pumping_device) = 16"
    "state (takeMeasurements ?e pumping_device) = REPORTING_STATE"
    by simp_all
  from pump_current_significant_change [OF on(2), of ?e] before reading alert
  have one: "pumpAmps (takeMeasurements ?e ?one) = 16"
    "state (takeMeasurements ?e ?one) = IDLE_STATE"
    by simp_all
  from on before two one show ?thesis by simp
qed

subsection \<open>C7: daily cleanup\<close>

text \<open>
  C7. After a daily cleanup the daily pumping minutes are 0 in memory and in the
  persistent register, and verbose mode is off in memory and in the persisted control
  register (bit 3). A second cleanup, whatever the surroundings, gives the same again
  and leaves the whole persistent register, byte for byte, as the first left it. The
  persisted minutes are the \<^verbatim>\<open>int\<close> read back at their address, the way start-up
  reads them.
\<close>

theorem dailyCleanup_twice:
  "(let s1 = dailyCleanup e1 s; s2 = dailyCleanup e2 s1
    in dailyPumpingMins s1 = 0 \<and> fram_get_int (fram s1) dailyPumpingMinsAddr = 0 \<and>
       verboseMode s1 = False \<and> controlRegister s1 AND 0x08 = 0 \<and>
       fram_get_byte (fram s1) controlRegisterAddr AND 0x08 = 0 \<and>
       dailyPumpingMins s2 = 0 \<and> fram_get_int (fram s2) dailyPumpingMinsAddr = 0 \<and>
       verboseMode s2 = False \<and> controlRegister s2 AND 0x08 = 0 \<and>
       fram_get_byte (fram s2) controlRegisterAddr AND 0x08 = 0 \<and>
       fram s2 = fram s1 \<and> controlRegister s2 = controlRegister s1)"
proof -
  have mins: "fram_get_int (fram_put_byte controlRegisterAddr c
                (fram_put_int dailyPumpingMinsAddr 0 fr)) dailyPumpingMinsAddr = 0" for c fr
    by (simp add: fram_defs)
  have ctl: "fram_get_byte (fram_put_byte controlRegisterAddr c fr) controlRegisterAddr = c"
    for c fr
    by (simp add: fram_defs)
  have again: "fram_put_byte controlRegisterAddr c (fram_put_int dailyPumpingMinsAddr 0
                 (fram_put_byte controlRegisterAddr c (fram_put_int dailyPumpingMinsAddr 0 fr)))
               = fram_put_byte controlRegisterAddr c (fram_put_int dailyPumpingMinsAddr 0 fr)"
    for c fr
    by (simp add: fram_defs fun_eq_iff)
  show ?thesis
    by (simp add: dailyCleanup_def gate_defs Let_def verbose_bit_cleared verbose_mask_idem
        mins ctl again)
qed

subsection \<open>C8: reporting\<close>
















subsection \<open>C9: the pump channel\<close>

text \<open>
  C9 does not hold of the handler. The payload \<^verbatim>\<open>abc\<close> arrives while the pump is
  requested on: \<^verbatim>\<open>strtol\<close> finds no digits and returns 0, and the handler clears the
  request. The remote function \<^verbatim>\<open>pumpControl\<close> rejects the same text and leaves the
  request as it is.
\<close>

theorem pumpControlHandler_unparsed_payload:
  "pumpingEnabled (idle_device\<lparr>pumpingEnabled := True\<rparr>) = True \<and>
   pumpingEnabled (pumpControlHandler ''abc'' (idle_device\<lparr>pumpingEnabled := True\<rparr>)) = False \<and>
   fst (pumpControl ''abc'' (idle_device\<lparr>pumpingEnabled := True\<rparr>)) = 0 \<and>
   pumpingEnabled (snd (pumpControl ''abc'' (idle_device\<lparr>pumpingEnabled := True\<rparr>))) = True"
  by (simp add: pumpControlHandler_def pumpControl_def strtol_defs gate_defs idle_device_def
      Let_def)

subsection \<open>C10: resetting the counters\<close>

text \<open>
  C10 does not hold of the function. \<^verbatim>\<open>resetCounts\<close> with the command \<^verbatim>\<open>1\<close> is called
  during a session whose start, 1549999000, is in the persistent register. The call is
  accepted and zeroes \<open>resetCount\<close> and the daily pumping minutes, each in memory and
  in the register, clears \<open>dataInFlight\<close> and the alert bitmask, and leaves the
  control byte alone. But the two zeros are put as \<^verbatim>\<open>int\<close>s, four bytes each, at the
  addresses 2 and 3: they also clear the bytes at 5 and 6, the low half of the
  persisted session start, which reads 1549991936 afterwards.
\<close>

theorem resetCounts_clears_session_start:
  "fram_get_long (fram pumping_device) pumpingStartAddr = 1549999000 \<and>
   fst (resetCounts ''1'' pumping_device) = 1 \<and>
   resetCount (snd (resetCounts ''1'' pumping_device)) = 0 \<and>
   fram_get_int (fram (snd (resetCounts ''1'' pumping_device))) resetCountAddr = 0 \<and>
   dailyPumpingMins (snd (resetCounts ''1'' pumping_device)) = 0 \<and>
   fram_get_int (fram (snd (resetCounts ''1'' pumping_device))) dailyPumpingMinsAddr = 0 \<and>
   dataInFlight (snd (resetCounts ''1'' pumping_device)) = False \<and>
   alertValue (snd (resetCounts ''1'' pumping_device)) = 0 \<and>
   fram_get_byte (fram (snd (resetCounts ''1'' pumping_device))) controlRegisterAddr
     = fram_get_byte (fram pumping_device) controlRegisterAddr \<and>
   fram_get_long (fram (snd (resetCounts ''1'' pumping_device))) lastHookResponseAddr
     = fram_get_long (fram pumping_device) lastHookResponseAddr \<and>
   fram_get_long (fram (snd (resetCounts ''1'' pumping_device))) pumpingStartAddr = 1549991936"
proof -
  have before: "fram_get_long (fram pumping_device) pumpingStartAddr = 1549999000"
    by (simp add: pumping_device_def idle_device_def fram_get_put_long)
  have call: "resetCounts ''1'' pumping_device =
      (1, pumping_device\<lparr>resetCount := 0, dataInFlight := False, dailyPumpingMins := 0,
            alertValue := 0,
            fram := fram_put_int dailyPumpingMinsAddr 0
                      (fram_put_int resetCountAddr 0 (fram pumping_device))\<rparr>)"
    by (simp add: resetCounts_def Let_def)
  have bytes: "fram pumping_device 5 = 0x98" "fram pumping_device 6 = 0x1B"
    "fram pumping_device 7 = 0x63" "fram pumping_device 8 = 0x5C"
    by (simp_all add: pumping_device_def idle_device_def fram_put_long_def fram_put_byte_def
        addr_defs)
  have after: "fram_get_long (fram_put_int dailyPumpingMinsAddr 0
                 (fram_put_int resetCountAddr 0 (fram pumping_device))) pumpingStartAddr
               = 1549991936"
    by (simp add: fram_get_long_def fram_put_int_def fram_put_long_def addr_defs bytes)
  have counts: "fram_get_int (fram_put_int dailyPumpingMinsAddr 0
                 (fram_put_int resetCountAddr 0 fr)) resetCountAddr = 0"
    "fram_get_int (fram_put_int dailyPumpingMinsAddr 0
                 (fram_put_int resetCountAddr 0 fr)) dailyPumpingMinsAddr = 0" for fr
    by (simp_all add: fram_get_int_def fram_get_long_def fram_put_int_def fram_put_long_def
        addr_defs)
  have others: "fram_get_byte (fram_put_int dailyPumpingMinsAddr 0
                 (fram_put_int resetCountAddr 0 fr)) controlRegisterAddr
                = fram_get_byte fr controlRegisterAddr"
    "fram_get_long (fram_put_int dailyPumpingMinsAddr 0
                 (fram_put_int resetCountAddr 0 fr)) lastHookResponseAddr
                = fram_get_long fr lastHookResponseAddr" for fr
    by (simp_all add: fram_get_byte_def fram_get_long_def fram_put_int_def fram_put_long_def
        addr_defs)
  from before after counts others show ?thesis
    by (simp add: call)
qed

end
